theory Spec2Isabelle
  imports Main
begin

section \<open>JavaScript strings\<close>

text \<open>
  A JavaScript string is a sequence of UTF-16 code units; \<open>length\<close>, \<open>slice\<close>,
  \<open>indexOf\<close> and the regular expressions of the sources (none has the \<open>u\<close> flag) all
  count code units. A code unit is kept as its numeric value: the program only compares
  code units, it never computes with them. \<open>js\<close> reads an ASCII literal.
\<close>

type_synonym jsstring = "nat list"

definition js :: "string \<Rightarrow> jsstring" where
  "js s = map of_char s"

text \<open>
  \<^verbatim>\<open>s.slice(a, b)\<close>: a negative index counts from the end, both are clamped to
  \<open>[0, length]\<close>, and the result is empty when the end is not after the start.
  \<^verbatim>\<open>s.slice(a)\<close> runs to the end of the string.
\<close>

definition slice :: "'a list \<Rightarrow> int \<Rightarrow> int \<Rightarrow> 'a list" where
  "slice s a b =
     (let n = int (length s);
          from = (if a < 0 then max (n + a) 0 else min a n);
          to = (if b < 0 then max (n + b) 0 else min b n)
      in take (nat (to - from)) (drop (nat from) s))"

definition slice1 :: "'a list \<Rightarrow> int \<Rightarrow> 'a list" where
  "slice1 s a = slice s a (int (length s))"

definition startsWith :: "'a list \<Rightarrow> 'a list \<Rightarrow> bool" where
  "startsWith s p = (take (length p) s = p)"

definition endsWith :: "'a list \<Rightarrow> 'a list \<Rightarrow> bool" where
  "endsWith s p = (length p \<le> length s \<and> drop (length s - length p) s = p)"

text \<open>
  \<^verbatim>\<open>s.indexOf(p)\<close>: the first position where \<open>p\<close> occurs (\<open>None\<close> is the
  source's \<open>-1\<close>).
\<close>

fun indexOf :: "'a list \<Rightarrow> 'a list \<Rightarrow> nat option" where
  "indexOf [] p = (if p = [] then Some 0 else None)"
| "indexOf (c # cs) p =
     (if startsWith (c # cs) p then Some 0 else map_option Suc (indexOf cs p))"

text \<open>The number a position or a failed search is in the source: \<open>-1\<close> when not found.\<close>

definition jsIndex :: "nat option \<Rightarrow> int" where
  "jsIndex r = (case r of None \<Rightarrow> - 1 | Some i \<Rightarrow> int i)"

text \<open>
  \<^verbatim>\<open>s.replace(p, r)\<close> with a string pattern: the first occurrence only. (The
  replacement strings of the sources hold no \<open>$\<close> pattern.)
\<close>

definition replaceFirst :: "'a list \<Rightarrow> 'a list \<Rightarrow> 'a list \<Rightarrow> 'a list" where
  "replaceFirst s p r =
     (case indexOf s p of
        None \<Rightarrow> s
      | Some i \<Rightarrow> take i s @ r @ drop (i + length p) s)"

text \<open>
  \<^verbatim>\<open>s.replace(/p/g, r)\<close> for a literal, non-empty pattern: every occurrence, left to
  right, the search resuming after each match.
\<close>

fun replaceAll :: "'a list \<Rightarrow> 'a list \<Rightarrow> 'a list \<Rightarrow> 'a list" where
  "replaceAll [] p r = []"
| "replaceAll (c # cs) p r =
     (if p \<noteq> [] \<and> startsWith (c # cs) p
      then r @ replaceAll (drop (length p - 1) cs) p r
      else c # replaceAll cs p r)"

text \<open>The decimal digits of a number, as string interpolation prints a non-negative integer.\<close>

fun decimal :: "nat \<Rightarrow> jsstring" where
  "decimal n = (if n < 10 then [48 + n] else decimal (n div 10) @ [48 + n mod 10])"

declare decimal.simps [simp del]

section \<open>Span records and the Chinese test (findChineseText.ts)\<close>

text \<open>
  A span record \<^verbatim>\<open>{ range: { start, end }, text, isString }\<close>. Offsets are JavaScript
  numbers; \<^verbatim>\<open>handleObjectValue\<close> can produce \<open>-1\<close>, so they are integers.
\<close>

record span =
  range_start :: int
  range_end :: int
  span_text :: jsstring
  isString :: bool

text \<open>\<^verbatim>\<open>DOUBLE_BYTE_REGEX\<close>, the class U+4E00..U+9FFF, and \<^verbatim>\<open>hasChinese\<close>.\<close>

definition isDoubleByte :: "nat \<Rightarrow> bool" where
  "isDoubleByte c = (0x4E00 \<le> c \<and> c \<le> 0x9FFF)"

definition hasChinese :: "jsstring \<Rightarrow> bool" where
  "hasChinese str = (str \<noteq> [] \<and> list_ex isDoubleByte str)"

section \<open>Preparing the translator's fragments (extract.ts, getTransOriginText)\<close>

text \<open>
  \<^verbatim>\<open>text.match(reg)\<close> for the global regular expression of the class a-z, A-Z,
  U+4E00..U+9FA5, one or more times: the maximal runs of characters of the class,
  left to right, or \<open>null\<close> (here \<open>None\<close>) when there is none.
\<close>

definition isKeyChar :: "nat \<Rightarrow> bool" where
  "isKeyChar c = ((97 \<le> c \<and> c \<le> 122) \<or> (65 \<le> c \<and> c \<le> 90) \<or> (0x4E00 \<le> c \<and> c \<le> 0x9FA5))"

function matchRuns :: "(nat \<Rightarrow> bool) \<Rightarrow> jsstring \<Rightarrow> jsstring list" where
  "matchRuns p [] = []"
| "matchRuns p (c # cs) =
     (if p c then (c # takeWhile p cs) # matchRuns p (dropWhile p cs)
      else matchRuns p cs)"
  by pat_completeness auto
termination
  by (relation "measure (\<lambda>(p, s). length s)") (auto simp: length_dropWhile_le less_Suc_eq_le)

definition matchGlobal :: "(nat \<Rightarrow> bool) \<Rightarrow> jsstring \<Rightarrow> jsstring list option" where
  "matchGlobal p s = (case matchRuns p s of [] \<Rightarrow> None | m # ms \<Rightarrow> Some (m # ms))"

text \<open>In JavaScript every object is truthy, the empty array too.\<close>

definition arrayTruthy :: "'a list \<Rightarrow> bool" where
  "arrayTruthy xs = True"

definition sentinel :: jsstring where
  "sentinel = [0x4E2D, 0x6587, 0x7B26, 0x53F7]"

text \<open>
  \<^verbatim>\<open>
  const findText = text.match(reg) || [];
  const transOriginText = findText ? findText.join('').slice(0, 5) : '...';
  \<close>
\<close>

definition getTransOriginText :: "jsstring \<Rightarrow> jsstring" where
  "getTransOriginText text' =
     (let findText = (case matchGlobal isKeyChar text' of None \<Rightarrow> [] | Some ms \<Rightarrow> ms)
      in if arrayTruthy findText then slice (concat findText) 0 5 else sentinel)"

section \<open>Span normalisation (extract.ts and findChineseText.ts)\<close>

text \<open>
  \<^verbatim>\<open>_.sortBy(texts, obj => -obj.range.start)\<close> in \<^verbatim>\<open>findAllChineseText\<close>: a stable sort
  by the negated start.
\<close>

definition sortTexts :: "span list \<Rightarrow> span list" where
  "sortTexts texts = sort_key (\<lambda>obj. - range_start obj) texts"

text \<open>
  \<^verbatim>\<open>filterTargetStrs\<close> (inlined in \<^verbatim>\<open>generateKeyAndReplace\<close> in the older copy): a span
  is dropped when a span after it in the list ends at or after its end.
\<close>

fun filterTargetStrs :: "span list \<Rightarrow> span list" where
  "filterTargetStrs [] = []"
| "filterTargetStrs (strObj # afterStrs) =
     (if list_ex (\<lambda>obj. range_end strObj \<le> range_end obj) afterStrs
      then filterTargetStrs afterStrs
      else strObj # filterTargetStrs afterStrs)"

text \<open>The normaliser of one file: the sort of the extraction pass, then the filter.\<close>

definition normalizeSpans :: "span list \<Rightarrow> span list" where
  "normalizeSpans texts = filterTargetStrs (sortTexts texts)"

text \<open>
  \<^verbatim>\<open>filterNestedRanges\<close> of the version-2 component extractor works on the \<open>arrf\<close> pair of
  a match. An entry of \<open>arrf\<close> can be \<open>undefined\<close> (the matches of \<^verbatim>\<open>findVueText\<close> have no
  \<open>start\<close> and \<open>end\<close> of their own), and a comparison with \<open>undefined\<close> is false.
\<close>

record vmatch = span +
  arrf0 :: "int option"
  arrf1 :: "int option"

definition jsLess :: "int option \<Rightarrow> int option \<Rightarrow> bool" where
  "jsLess a b = (case (a, b) of (Some x, Some y) \<Rightarrow> x < y | _ \<Rightarrow> False)"

definition jsLessEq :: "int option \<Rightarrow> int option \<Rightarrow> bool" where
  "jsLessEq a b = (case (a, b) of (Some x, Some y) \<Rightarrow> x \<le> y | _ \<Rightarrow> False)"

definition nestedIn :: "vmatch \<Rightarrow> vmatch \<Rightarrow> bool" where
  "nestedIn item items =
     ((jsLess (arrf0 items) (arrf0 item) \<and> jsLessEq (arrf1 item) (arrf1 items)) \<or>
      (jsLessEq (arrf0 items) (arrf0 item) \<and> jsLess (arrf1 item) (arrf1 items)) \<or>
      (jsLess (arrf0 items) (arrf0 item) \<and> jsLess (arrf1 item) (arrf1 items)))"

definition filterNestedRanges :: "vmatch list \<Rightarrow> vmatch list" where
  "filterNestedRanges matches = filter (\<lambda>item. \<not> list_ex (nestedIn item) matches) matches"

text \<open>
  The words of the specification: a range strictly contains another when it covers it
  and is not equal to it.
\<close>

definition strictlyContains :: "int \<times> int \<Rightarrow> int \<times> int \<Rightarrow> bool" where
  "strictlyContains outer inner =
     (fst outer \<le> fst inner \<and> snd inner \<le> snd outer \<and>
      (fst outer < fst inner \<or> snd inner < snd outer))"

definition spanRange :: "span \<Rightarrow> int \<times> int" where
  "spanRange s = (range_start s, range_end s)"

section \<open>Key synthesis (extract.ts)\<close>

text \<open>
  The catalogue in memory, \<^verbatim>\<open>finalLangObj\<close>: the object \<^verbatim>\<open>getSuggestLangObj()\<close> returns,
  flattened to dotted keys, in the order the keys were inserted. Storing under a key that
  exists keeps its place; a new key goes last.
\<close>

type_synonym langObj = "(jsstring \<times> jsstring) list"

fun setKey :: "langObj \<Rightarrow> jsstring \<Rightarrow> jsstring \<Rightarrow> langObj" where
  "setKey [] k v = [(k, v)]"
| "setKey ((k', v') # rest) k v =
     (if k' = k then (k, v) # rest else (k', v') # setKey rest k v)"





text \<open>\<^verbatim>\<open>xs.join(sep)\<close>.\<close>

fun joinWith :: "jsstring \<Rightarrow> jsstring list \<Rightarrow> jsstring" where
  "joinWith sep [] = []"
| "joinWith sep [x] = x"
| "joinWith sep (x # y # ys) = x @ sep @ joinWith sep (y # ys)"














section \<open>The translator's input (extract.ts, batchTranslate)\<close>





section \<open>The extractors (findChineseText.ts)\<close>

text \<open>
  What a function of the sources throws, as a value. \<open>IOError\<close> stands for what the
  file system throws.
\<close>

datatype error = ParseError | TypeError | DuplicateKey | IOError

text \<open>
  The template parser's tree, as \<^verbatim>\<open>findTextInHtml\<close> reads it: a node's \<open>value\<close> (absent,
  a string, or an object with a \<open>source\<close> that may be missing), its \<open>valueSpan\<close> (may be
  missing) and \<open>sourceSpan\<close> as offset pairs, its children and its attributes.
\<close>

datatype nodeValue = NoValue | StringValue jsstring | ObjectValue "jsstring option"

datatype htmlNode =
  HtmlNode nodeValue "(int \<times> int) option" "int \<times> int" "htmlNode list" "htmlNode list"

text \<open>
  \<^verbatim>\<open>
  function handleStringValue(node, value, startOffset, endOffset) {
    let isString = false;
    const nodeValue = code.slice(startOffset, endOffset);
    if (nodeValue.charAt(0) === '"' || nodeValue.charAt(0) === "'") { isString = true; }
    matches.push({ range: makeRange(startOffset, endOffset), text: value, isString });
  }
  \<close>
\<close>

definition handleStringValue :: "jsstring \<Rightarrow> jsstring \<Rightarrow> int \<Rightarrow> int \<Rightarrow> span" where
  "handleStringValue code val startOffset endOffset =
     (let nodeValue = slice code startOffset endOffset
      in \<lparr>range_start = startOffset, range_end = endOffset, span_text = val,
          isString = (take 1 nodeValue = [34] \<or> take 1 nodeValue = [39])\<rparr>)"

text \<open>
  \<^verbatim>\<open>
  function handleObjectValue(node, match, startOffset, endOffset) {
    const nodeValue = code.slice(startOffset, endOffset);
    const start = nodeValue.indexOf(match);
    const end = start + match.length;
    matches.push({ range: makeRange(start, end), text: match[0], isString: false });
  }
  \<close>
\<close>

definition handleObjectValue :: "jsstring \<Rightarrow> jsstring \<Rightarrow> int \<Rightarrow> int \<Rightarrow> span" where
  "handleObjectValue code match startOffset endOffset =
     (let nodeValue = slice code startOffset endOffset;
          start = jsIndex (indexOf nodeValue match);
          end' = start + int (length match)
      in \<lparr>range_start = start, range_end = end', span_text = take 1 match, isString = False\<rparr>)"

text \<open>
  \<^verbatim>\<open>visit\<close>: the node's own matches, then its children's, then its attributes'.
  \<^verbatim>\<open>value.source.match(DOUBLE_BYTE_REGEX)\<close> is the list of the Chinese characters of
  the source, one match for each.
\<close>

fun visit :: "jsstring \<Rightarrow> htmlNode \<Rightarrow> span list" where
  "visit code (HtmlNode val valueSpan sourceSpan children attributes) =
     (let span' = (case valueSpan of Some vs \<Rightarrow> vs | None \<Rightarrow> sourceSpan);
          own =
            (case val of
               StringValue v \<Rightarrow>
                 (if v \<noteq> [] \<and> hasChinese v
                  then [handleStringValue code v (fst span') (snd span')] else [])
             | ObjectValue (Some source) \<Rightarrow>
                 (if source \<noteq> [] \<and> hasChinese source
                  then map (\<lambda>c. handleObjectValue code [c] (fst span') (snd span'))
                         (filter isDoubleByte source)
                  else [])
             | _ \<Rightarrow> [])
      in own @ concat (map (visit code) children) @ concat (map (visit code) attributes))"

text \<open>
  A node of the script parser's tree, as the handlers of \<^verbatim>\<open>findTextInTs\<close> read it:
  \<open>pos\<close> (where the node begins, the blanks and comments before it included),
  \<^verbatim>\<open>getStart()\<close> (its first character) and \<open>end\<close>, which \<^verbatim>\<open>getEnd()\<close> returns. The
  handler of a template literal with interpolations, with the matches it pushes as its
  result:
  \<^verbatim>\<open>
  function handleTemplateExpression(node: ts.TemplateExpression) {
    const { pos, end } = node;
    const templateContent = code.slice(pos, end);
    if (hasChinese(templateContent)) {
      matches.push({
        range: makeRange(node.getStart(), node.getEnd()),
        text: code.slice(node.getStart() + 1, node.getEnd() - 1),
        isString: true
      });
    }
  }
  \<close>
\<close>

record tsNode =
  node_pos :: int
  node_start :: int
  node_end :: int

definition handleTemplateExpression :: "jsstring \<Rightarrow> tsNode \<Rightarrow> span list" where
  "handleTemplateExpression code node =
     (let templateContent = slice code (node_pos node) (node_end node)
      in if hasChinese templateContent
         then [\<lparr>range_start = node_start node, range_end = node_end node,
                span_text = slice code (node_start node + 1) (node_end node - 1),
                isString = True\<rparr>]
         else [])"

text \<open>
  A parsed JSON value, for \<^verbatim>\<open>kiwi.config.json\<close> and for the object a catalogue file
  exports. A number is kept as an integer: only whether it is zero is looked at.
\<close>

datatype json =
  JNull | JBool bool | JNum int | JStr jsstring | JArr "json list"
  | JObj "(jsstring \<times> json) list"

text \<open>The configuration file as the file system shows it when it is looked at.\<close>

datatype configFile = Absent | Unreadable | Readable jsstring

text \<open>
  The parsers and compilers the extractors call, which are libraries: the whole of
  \<^verbatim>\<open>findTextInTs\<close>, \<^verbatim>\<open>findTextInJs\<close> and \<^verbatim>\<open>findTextInVue2\<close> (each a parse and a walk of the
  library's tree), the body of the \<open>try\<close> of \<^verbatim>\<open>findTextInVue3\<close>, the template parser of
  \<^verbatim>\<open>findTextInHtml\<close>, and \<^verbatim>\<open>JSON.parse\<close>. Each returns its result or what it throws.
\<close>

record parsers =
  findTextInTs :: "jsstring \<Rightarrow> jsstring \<Rightarrow> error + span list"
  findTextInJs :: "jsstring \<Rightarrow> error + span list"
  findTextInVue2 :: "jsstring \<Rightarrow> error + span list"
  vue3Try :: "jsstring \<Rightarrow> error + span list"
  parseTemplate :: "jsstring \<Rightarrow> error + htmlNode list"
  jsonParse :: "jsstring \<Rightarrow> error + json"

definition findTextInHtml :: "parsers \<Rightarrow> jsstring \<Rightarrow> error + span list" where
  "findTextInHtml ps code =
     (case parseTemplate ps code of
        Inl e \<Rightarrow> Inl e
      | Inr nodes \<Rightarrow> Inr (concat (map (visit code) nodes)))"

text \<open>Truthiness of a JSON value, and \<^verbatim>\<open>config.vueVersion\<close>: reading a property of \<open>null\<close>
  throws, a primitive or an array has no such property.\<close>

definition jsonTruthy :: "json \<Rightarrow> bool" where
  "jsonTruthy v =
     (case v of JNull \<Rightarrow> False | JBool b \<Rightarrow> b | JNum n \<Rightarrow> n \<noteq> 0 | JStr s \<Rightarrow> s \<noteq> []
      | JArr xs \<Rightarrow> True | JObj fs \<Rightarrow> True)"

definition getProperty :: "json \<Rightarrow> jsstring \<Rightarrow> error + json option" where
  "getProperty v name =
     (case v of JNull \<Rightarrow> Inl TypeError | JObj fs \<Rightarrow> Inr (map_of fs name) | _ \<Rightarrow> Inr None)"

text \<open>
  \<^verbatim>\<open>
  function getVueVersionFromConfig() {
    try {
      const configPath = path.resolve(process.cwd(), './kiwi.config.json');
      if (fs.existsSync(configPath)) {
        const config = JSON.parse(fs.readFileSync(configPath, 'utf-8'));
        return config.vueVersion || 'vue3';
      }
    } catch (e) { }
    return 'vue3';
  }
  \<close>
  The argument is the file as it is at the moment of the call.
\<close>

definition getVueVersionFromConfig :: "parsers \<Rightarrow> configFile \<Rightarrow> json" where
  "getVueVersionFromConfig ps cfg =
     (case cfg of
        Absent \<Rightarrow> JStr (js ''vue3'')
      | Unreadable \<Rightarrow> JStr (js ''vue3'')
      | Readable content \<Rightarrow>
          (case jsonParse ps content of
             Inl e \<Rightarrow> JStr (js ''vue3'')
           | Inr config \<Rightarrow>
               (case getProperty config (js ''vueVersion'') of
                  Inl e \<Rightarrow> JStr (js ''vue3'')
                | Inr None \<Rightarrow> JStr (js ''vue3'')
                | Inr (Some v) \<Rightarrow> if jsonTruthy v then v else JStr (js ''vue3''))))"

text \<open>\<^verbatim>\<open>findTextInVue3\<close>: when the \<open>try\<close> throws, the version-2 extractor runs.\<close>

definition findTextInVue3 :: "parsers \<Rightarrow> jsstring \<Rightarrow> error + span list" where
  "findTextInVue3 ps code =
     (case vue3Try ps code of Inl e \<Rightarrow> findTextInVue2 ps code | Inr matches \<Rightarrow> Inr matches)"

definition findTextInVue :: "parsers \<Rightarrow> configFile \<Rightarrow> jsstring \<Rightarrow> error + span list" where
  "findTextInVue ps cfg code =
     (let vueVersion = getVueVersionFromConfig ps cfg
      in if vueVersion = JStr (js ''vue2'') then findTextInVue2 ps code
         else findTextInVue3 ps code)"

definition findChineseText ::
  "parsers \<Rightarrow> configFile \<Rightarrow> jsstring \<Rightarrow> jsstring \<Rightarrow> error + span list" where
  "findChineseText ps cfg code fileName =
     (if endsWith fileName (js ''.html'') then findTextInHtml ps code
      else if endsWith fileName (js ''.vue'') then findTextInVue ps cfg code
      else if endsWith fileName (js ''.js'') \<or> endsWith fileName (js ''.jsx'')
        then findTextInJs ps code
      else findTextInTs ps code fileName)"

section \<open>The extraction pass (extract.ts, findAllChineseText)\<close>

record workItem =
  item_file :: jsstring
  texts :: "span list"

text \<open>
  The filter of the file list. \<open>isFile\<close> is the file system's answer.
\<close>

definition isCodeFile :: "(jsstring \<Rightarrow> bool) \<Rightarrow> jsstring \<Rightarrow> bool" where
  "isCodeFile isFile f =
     ((isFile f \<and> endsWith f (js ''.ts'')) \<or> endsWith f (js ''.tsx'') \<or>
      endsWith f (js ''.vue'') \<or> endsWith f (js ''.js'') \<or> endsWith f (js ''.jsx''))"

text \<open>
  The \<^verbatim>\<open>reduce\<close> over the files. Nothing catches what \<^verbatim>\<open>findChineseText\<close> throws, so the
  first throw ends the loop and is what the function throws.
  \<^verbatim>\<open>
  const allTexts = filterFiles.reduce((pre, file) => {
    const code = readFile(file);
    const texts = findChineseText(code, file);
    const sortTexts = _.sortBy(texts, obj => -obj.range.start);
    return texts.length > 0 ? pre.concat({ file, texts: sortTexts }) : pre;
  }, []);
  \<close>
\<close>

fun collectTexts ::
  "parsers \<Rightarrow> configFile \<Rightarrow> (jsstring \<Rightarrow> jsstring) \<Rightarrow> workItem list \<Rightarrow> jsstring list \<Rightarrow>
   error + workItem list" where
  "collectTexts ps cfg readFile pre [] = Inr pre"
| "collectTexts ps cfg readFile pre (f # files) =
     (case findChineseText ps cfg (readFile f) f of
        Inl e \<Rightarrow> Inl e
      | Inr found \<Rightarrow>
          collectTexts ps cfg readFile
            (if length found > 0 then pre @ [\<lparr>item_file = f, texts = sortTexts found\<rparr>] else pre)
            files)"

text \<open>
  \<^verbatim>\<open>findAllChineseText\<close>, from the list of files the walk of the directory (or the
  argument, split at commas) gave.
\<close>

definition findAllChineseText ::
  "parsers \<Rightarrow> configFile \<Rightarrow> (jsstring \<Rightarrow> bool) \<Rightarrow> (jsstring \<Rightarrow> jsstring) \<Rightarrow> jsstring list \<Rightarrow>
   error + workItem list" where
  "findAllChineseText ps cfg isFile readFile files =
     collectTexts ps cfg readFile [] (filter (isCodeFile isFile) files)"

section \<open>The rewriter (replace.ts)\<close>

subsection \<open>The context tests\<close>

text \<open>\<^verbatim>\<open>code[i]\<close>: \<open>undefined\<close> (here \<open>None\<close>) outside the string.\<close>

definition charAt :: "jsstring \<Rightarrow> int \<Rightarrow> nat option" where
  "charAt code i = (if 0 \<le> i \<and> i < int (length code) then Some (code ! nat i) else None)"

text \<open>
  \<^verbatim>\<open>isTemplateString\<close>: \<^verbatim>\<open>code.slice(start - 1, start)\<close> is a backtick (code unit 96).
  \<^verbatim>\<open>isPropertyAssignment\<close>: \<^verbatim>\<open>code.slice(start - 1, start + 1).split('')[0] === '='\<close>.
\<close>

definition isTemplateString :: "jsstring \<Rightarrow> int \<Rightarrow> bool" where
  "isTemplateString code start = (slice code (start - 1) start = [96])"

definition isPropertyAssignment :: "jsstring \<Rightarrow> int \<Rightarrow> bool" where
  "isPropertyAssignment code start = (take 1 (slice code (start - 1) (start + 1)) = [61])"

text \<open>
  The loop of \<^verbatim>\<open>isInVueInterpolation\<close>, from \<open>pos\<close> down to 0: it stops at the nearest
  \<open>{{\<close> before the start and remembers the leftmost \<open>}}\<close> it passed. The result is
  \<open>(foundOpen, openPos, foundClose, closePos)\<close>.
  \<^verbatim>\<open>
  while (pos >= 0) {
    if (pos > 0 && code[pos - 1] === '{' && code[pos] === '{') {
      foundOpen = true; openPos = pos - 1; break;
    }
    if (pos > 0 && code[pos - 1] === '}' && code[pos] === '}') {
      foundClose = true; closePos = pos - 1;
    }
    pos--;
  }
  \<close>
\<close>

function scanBack :: "jsstring \<Rightarrow> int \<Rightarrow> bool \<Rightarrow> int \<Rightarrow> bool \<times> int \<times> bool \<times> int" where
  "scanBack code pos foundClose closePos =
     (if 0 \<le> pos then
        (if 0 < pos \<and> charAt code (pos - 1) = Some 123 \<and> charAt code pos = Some 123
         then (True, pos - 1, foundClose, closePos)
         else if 0 < pos \<and> charAt code (pos - 1) = Some 125 \<and> charAt code pos = Some 125
         then scanBack code (pos - 1) True (pos - 1)
         else scanBack code (pos - 1) foundClose closePos)
      else (False, - 1, foundClose, closePos))"
  by pat_completeness auto
termination
  by (relation "measure (\<lambda>(code, pos, foundClose, closePos). nat (pos + 1))") auto

declare scanBack.simps [simp del]

definition isInVueInterpolation :: "jsstring \<Rightarrow> int \<Rightarrow> bool" where
  "isInVueInterpolation code start =
     (case scanBack code (start - 1) False (- 1) of
        (foundOpen, openPos, foundClose, closePos) \<Rightarrow>
          if foundOpen then
            (if foundClose \<and> closePos > openPos
             then start > openPos \<and> start < closePos + 2
             else True)
          else False)"

text \<open>
  \<^verbatim>\<open>s.indexOf(p, from)\<close> and \<^verbatim>\<open>s.lastIndexOf(p, from)\<close>: the first occurrence at or
  after \<open>from\<close>, the last occurrence at or before it; \<open>from\<close> is clamped to the string.
\<close>

definition indexOfFrom :: "jsstring \<Rightarrow> jsstring \<Rightarrow> int \<Rightarrow> nat option" where
  "indexOfFrom s p from =
     (let k = nat (min (max from 0) (int (length s)))
      in map_option (\<lambda>i. i + k) (indexOf (drop k s) p))"

definition occursAt :: "jsstring \<Rightarrow> jsstring \<Rightarrow> nat \<Rightarrow> bool" where
  "occursAt s p k = (k + length p \<le> length s \<and> take (length p) (drop k s) = p)"

fun lastIndexUpTo :: "jsstring \<Rightarrow> jsstring \<Rightarrow> nat \<Rightarrow> nat option" where
  "lastIndexUpTo s p 0 = (if occursAt s p 0 then Some 0 else None)"
| "lastIndexUpTo s p (Suc k) =
     (if occursAt s p (Suc k) then Some (Suc k) else lastIndexUpTo s p k)"

definition lastIndexOf :: "jsstring \<Rightarrow> jsstring \<Rightarrow> int \<Rightarrow> nat option" where
  "lastIndexOf s p from = lastIndexUpTo s p (nat (min (max from 0) (int (length s))))"

subsection \<open>Template strings\<close>

text \<open>
  The regular expression of \<^verbatim>\<open>handleTemplateString\<close>, a dollar sign, an opening brace,
  one or more characters other than a closing brace (as few as possible), a closing
  brace, tried at the head of a string: the match and what follows it. The match runs to
  the first closing brace, which must not come at once.
\<close>

definition varAt :: "jsstring \<Rightarrow> (jsstring \<times> jsstring) option" where
  "varAt s =
     (if startsWith s [36, 123] then
        (let body = takeWhile (\<lambda>c. c \<noteq> 125) (drop 2 s);
             after = drop (length body) (drop 2 s)
         in if body \<noteq> [] \<and> after \<noteq> []
            then Some ([36, 123] @ body @ [125], drop 1 after)
            else None)
      else None)"

text \<open>
  \<^verbatim>\<open>text.match(/(\$\{[^\}]+?\})/g)\<close>: the matches left to right, the search resuming
  after each; the empty list stands for \<open>null\<close>.
\<close>

function matchVars :: "jsstring \<Rightarrow> jsstring list" where
  "matchVars [] = []"
| "matchVars (c # cs) =
     (case varAt (c # cs) of
        Some (m, rest) \<Rightarrow> m # matchVars rest
      | None \<Rightarrow> matchVars cs)"
  by pat_completeness auto
termination
proof (relation "measure length")
  show "wf (measure length)" by simp
next
  fix c :: nat and cs :: jsstring
  show "(cs, c # cs) \<in> measure length" by simp
next
  fix c :: nat and cs x2 m rest :: jsstring and p :: "jsstring \<times> jsstring"
  assume "varAt (c # cs) = Some p" and "(m, rest) = p"
  then have "rest = drop 1 (drop (length (takeWhile (\<lambda>c. c \<noteq> 125) (drop 2 (c # cs)))) (drop 2 (c # cs)))"
    by (auto simp: varAt_def Let_def split: if_splits)
  then have "length rest < length (c # cs)" by simp
  then show "(rest, c # cs) \<in> measure length" by simp
qed

text \<open>
  \<^verbatim>\<open>str.replace(/^\${([^\}]+)\}$/, '$1')\<close>: the inside of \<open>${...}\<close> when the whole string
  has that shape, the string itself otherwise.
\<close>

definition stripInterpolation :: "jsstring \<Rightarrow> jsstring" where
  "stripInterpolation str =
     (if startsWith str [36, 123] \<and> 4 \<le> length str \<and> last str = 125 \<and>
         125 \<notin> set (butlast (drop 2 str))
      then butlast (drop 2 str) else str)"

definition placeholder :: "nat \<Rightarrow> jsstring" where
  "placeholder index = js ''{val'' @ decimal (index + 1) @ js ''}''"

text \<open>
  \<^verbatim>\<open>
  function handleTemplateString(text, val) {
    const varInStr = text.match(/(\$\{[^\}]+?\})/g);
    if (!varInStr) { return { replaceVal: val, replaceText: text }; }
    const kvPair = varInStr.map((str, index) => {
      return `val${index + 1}: ${str.replace(/^\${([^\}]+)\}$/, '$1')}`;
    });
    const replaceVal = `I18N.template(${val}, { ${kvPair.join(',\n')} })`;
    let replaceText = text;
    varInStr.forEach((str, index) => {
      replaceText = replaceText.replace(str, `{val${index + 1}}`);
    });
    return { replaceVal, replaceText };
  }
  \<close>
  The result is the pair \<open>(replaceVal, replaceText)\<close>.
\<close>

definition handleTemplateString :: "jsstring \<Rightarrow> jsstring \<Rightarrow> jsstring \<times> jsstring" where
  "handleTemplateString text' val =
     (let varInStr = matchVars text'
      in if varInStr = [] then (val, text')
         else
           (let kvPair = map (\<lambda>(index, str).
                                js ''val'' @ decimal (index + 1) @ js '': '' @ stripInterpolation str)
                           (enumerate 0 varInStr);
                replaceVal = js ''I18N.template('' @ val @ js '', { ''
                             @ joinWith (js '','' @ [10]) kvPair @ js '' })'';
                replaceText = foldl (\<lambda>replaceText (index, str).
                                       replaceFirst replaceText str (placeholder index))
                                text' (enumerate 0 varInStr)
            in (replaceVal, replaceText)))"

subsection \<open>The replacement\<close>

definition generateReplaceValue ::
  "jsstring \<Rightarrow> bool \<Rightarrow> bool \<Rightarrow> bool \<Rightarrow> bool \<Rightarrow> bool \<Rightarrow> jsstring" where
  "generateReplaceValue val isHtmlFile isVueFile isPropertyAssignmentFlag isTemplateStringFlag
       isInVueInterpolationFlag =
     (if isPropertyAssignmentFlag then
        (if isHtmlFile \<or> isVueFile then js ''{{'' @ val @ js ''}}''
         else js ''{'' @ val @ js ''}'')
      else if isTemplateStringFlag then val
      else if isInVueInterpolationFlag \<and> isVueFile then val
      else val)"

definition generateNonStringReplacement ::
  "jsstring \<Rightarrow> int \<Rightarrow> int \<Rightarrow> jsstring \<Rightarrow> bool \<Rightarrow> bool \<Rightarrow> jsstring" where
  "generateNonStringReplacement code start end' val isHtmlFile isVueFile =
     (if isHtmlFile \<or> isVueFile
      then slice code 0 start @ js ''{{'' @ val @ js ''}}'' @ slice1 code end'
      else slice code 0 start @ js ''{'' @ val @ js ''}'' @ slice1 code end')"

subsection \<open>The files on disk\<close>

text \<open>
  The object a catalogue file exports is kept as a JSON value: what \<^verbatim>\<open>JSON.stringify\<close>
  printed into the file. \<^verbatim>\<open>_.get\<close> and \<^verbatim>\<open>_.set\<close> are lodash's, here for a path given as
  a string that holds no bracket. Only the own properties of a value are looked at: a
  segment of a path is taken not to name a member of a prototype (\<^verbatim>\<open>length\<close>,
  \<^verbatim>\<open>toString\<close>, \<^verbatim>\<open>constructor\<close> and the like). The fields of an object are in the order
  they were added.

  A canonical numeral (no sign, no leading zero) names an element of an array or a
  character of a string; lodash's \<^verbatim>\<open>isIndex\<close> is such a numeral below \<open>2^53 - 1\<close>.
\<close>

definition readDecimal :: "jsstring \<Rightarrow> nat" where
  "readDecimal s = foldl (\<lambda>n c. 10 * n + (c - 48)) 0 s"

definition isNumeral :: "jsstring \<Rightarrow> bool" where
  "isNumeral s =
     (s \<noteq> [] \<and> list_all (\<lambda>c. 48 \<le> c \<and> c \<le> 57) s \<and>
      (if hd s = 48 then length s = 1 else True))"

definition isIndex :: "jsstring \<Rightarrow> bool" where
  "isIndex s = (isNumeral s \<and> readDecimal s < 9007199254740991)"

text \<open>\<^verbatim>\<open>s.split('.')\<close>.\<close>

fun splitOn :: "nat \<Rightarrow> jsstring \<Rightarrow> jsstring list" where
  "splitOn d [] = [[]]"
| "splitOn d (c # cs) =
     (if c = d then [] # splitOn d cs
      else (case splitOn d cs of [] \<Rightarrow> [[c]] | h # t \<Rightarrow> (c # h) # t))"

text \<open>lodash's \<^verbatim>\<open>isObject\<close>: an object or an array.\<close>

definition isObject :: "json \<Rightarrow> bool" where
  "isObject v = (case v of JObj fs \<Rightarrow> True | JArr xs \<Rightarrow> True | _ \<Rightarrow> False)"

text \<open>\<^verbatim>\<open>object[key]\<close>, \<open>undefined\<close> being \<open>None\<close>.\<close>

definition ownProperty :: "json \<Rightarrow> jsstring \<Rightarrow> json option" where
  "ownProperty v name =
     (case v of
        JObj fs \<Rightarrow> map_of fs name
      | JArr xs \<Rightarrow>
          if isNumeral name \<and> readDecimal name < length xs then Some (xs ! readDecimal name)
          else None
      | JStr s \<Rightarrow>
          if isNumeral name \<and> readDecimal name < length s
          then Some (JStr [s ! readDecimal name])
          else None
      | _ \<Rightarrow> None)"

fun setField :: "(jsstring \<times> json) list \<Rightarrow> jsstring \<Rightarrow> json \<Rightarrow> (jsstring \<times> json) list" where
  "setField [] k v = [(k, v)]"
| "setField ((k', v') # rest) k v =
     (if k' = k then (k, v) # rest else (k', v') # setField rest k v)"

text \<open>
  \<^verbatim>\<open>object[key] = value\<close> (lodash's \<^verbatim>\<open>assignValue\<close>), as the object is printed afterwards.
  An array grows to hold a new element, the holes printed as \<open>null\<close>; a property of an
  array that is not an element (an index is below \<open>2^32 - 1\<close>) is not printed.
\<close>

definition assignValue :: "json \<Rightarrow> jsstring \<Rightarrow> json \<Rightarrow> json" where
  "assignValue object key' val =
     (case object of
        JObj fs \<Rightarrow> JObj (setField fs key' val)
      | JArr xs \<Rightarrow>
          if isNumeral key' \<and> readDecimal key' < 4294967295
          then (let n = readDecimal key'
                in JArr (take n (xs @ replicate (n - length xs) JNull) @ val # drop (n + 1) xs))
          else JArr xs
      | _ \<Rightarrow> object)"

text \<open>
  lodash's \<^verbatim>\<open>castPath\<close>: a path with a dot is cut at its dots, unless the object has a
  property of that very name.
\<close>

definition castPath :: "jsstring \<Rightarrow> json \<Rightarrow> jsstring list" where
  "castPath path object =
     (if 46 \<in> set path \<and> ownProperty object path = None then splitOn 46 path else [path])"

text \<open>
  \<^verbatim>\<open>_.get(object, path)\<close>: the walk stops at \<open>null\<close> or \<open>undefined\<close>, and the result is
  \<open>undefined\<close> unless the whole path was walked.
\<close>

fun baseGet :: "json \<Rightarrow> jsstring list \<Rightarrow> json option" where
  "baseGet object [] = Some object"
| "baseGet object (key' # path) =
     (if object = JNull then None
      else (case ownProperty object key' of None \<Rightarrow> None | Some v \<Rightarrow> baseGet v path))"

definition lodashGet :: "json \<Rightarrow> jsstring \<Rightarrow> json option" where
  "lodashGet object path =
     (if object = JNull then None else baseGet object (castPath path object))"

text \<open>
  \<^verbatim>\<open>_.set(object, path, value)\<close>. On the way down, a value that is not an object is
  replaced: by an empty array when the next segment is an index, by an empty object
  otherwise.
  \<^verbatim>\<open>
  if (index != lastIndex) {
    var objValue = nested[key];
    newValue = isObject(objValue) ? objValue : (isIndex(path[index + 1]) ? [] : {});
  }
  assignValue(nested, key, newValue);
  nested = nested[key];
  \<close>
\<close>

fun baseSet :: "json \<Rightarrow> jsstring list \<Rightarrow> json \<Rightarrow> json" where
  "baseSet nested [] val = nested"
| "baseSet nested [key'] val = assignValue nested key' val"
| "baseSet nested (key' # next # path) val =
     (let fresh = (if isIndex next then JArr [] else JObj []);
          newValue = (case ownProperty nested key' of
                        None \<Rightarrow> fresh
                      | Some objValue \<Rightarrow> if isObject objValue then objValue else fresh)
      in assignValue nested key' (baseSet newValue (next # path) val))"

definition lodashSet :: "json \<Rightarrow> jsstring \<Rightarrow> json \<Rightarrow> json" where
  "lodashSet object path val =
     (if isObject object then baseSet object (castPath path object) val else object)"

text \<open>
  What the rewriter writes, in the order it writes: a catalogue file of a namespace (with
  the key and the value stored), the aggregator file, and a source file (a call of
  \<^verbatim>\<open>writeFile\<close> that returned, with the path and the text it was given).
\<close>

datatype event =
  LangFileWrite jsstring jsstring jsstring
  | MainLangFileWrite jsstring
  | SourceWrite jsstring jsstring

text \<open>
  The disk: the source files by path; the catalogue files by namespace, each the object
  it exports; and the writes so far, oldest first.

  Modelled from the spec: \<^verbatim>\<open>getLangData\<close> of \<^verbatim>\<open>./getLangData\<close>, which is not among the
  sources, loads the default export of a catalogue file: here the value \<open>langFiles\<close> holds
  for the namespace.
\<close>

type_synonym files = "jsstring \<Rightarrow> jsstring option"

record world =
  srcFiles :: files
  langFiles :: "jsstring \<Rightarrow> json option"
  trace :: "event list"

text \<open>
  \<^verbatim>\<open>
  function updateExistingLangFile(targetFilename, fullKey, text, validateDuplicate) {
    const mainContent = getLangData(targetFilename);
    const obj = mainContent;
    if (Object.keys(obj).length === 0) { failInfo(...); }
    if (validateDuplicate && _.get(obj, fullKey) !== undefined) {
      failInfo(...);
      throw new Error('duplicate');
    }
    text = text.replace(/\\n/gm, '\n');
    _.set(obj, fullKey, text);
    fs.writeFileSync(targetFilename, prettierFile(`export default ${JSON.stringify(obj, null, 2)}`));
  }
  \<close>
  \<^verbatim>\<open>Object.keys(null)\<close> throws; \<^verbatim>\<open>failInfo\<close> prints and returns.
\<close>

definition updateExistingLangFile ::
  "world \<Rightarrow> jsstring \<Rightarrow> json \<Rightarrow> jsstring \<Rightarrow> jsstring \<Rightarrow> bool \<Rightarrow> error + world" where
  "updateExistingLangFile w filename obj fullKey text' validateDuplicate =
     (if obj = JNull then Inl TypeError
      else if validateDuplicate \<and> lodashGet obj fullKey \<noteq> None then Inl DuplicateKey
      else
        (let text'' = replaceAll text' [92, 110] [10]
         in Inr (w\<lparr>langFiles := (langFiles w)(filename \<mapsto> lodashSet obj fullKey (JStr text'')),
                  trace := trace w @ [LangFileWrite filename fullKey text'']\<rparr>)))"

text \<open>
  \<^verbatim>\<open>updateLangFiles\<close>: nothing for a key that does not start with \<open>I18N.\<close>; the second
  segment of the key names the catalogue file, the later segments are the key in it. A
  missing file is created from \<^verbatim>\<open>_.set({}, key, value)\<close>, and the aggregator file is
  written.
  \<^verbatim>\<open>
  const [, filename, ...restPath] = keyValue.split('.');
  const fullKey = restPath.join('.');
  const targetFilename = `${srcLangDir}/${filename}.${CONFIG.fileType}`;
  if (!fs.existsSync(targetFilename)) {
    fs.writeFileSync(targetFilename, generateNewLangFile(fullKey, text));
    addImportToMainLangFile(filename);
  } else {
    updateExistingLangFile(targetFilename, fullKey, text, validateDuplicate);
  }
  \<close>
\<close>

definition updateLangFiles :: "world \<Rightarrow> jsstring \<Rightarrow> jsstring \<Rightarrow> bool \<Rightarrow> error + world" where
  "updateLangFiles w keyValue text' validateDuplicate =
     (if \<not> startsWith keyValue (js ''I18N.'') then Inr w
      else
        (case splitOn 46 keyValue of
           first # filename # restPath \<Rightarrow>
             (let fullKey = joinWith (js ''.'') restPath
              in case langFiles w filename of
                   None \<Rightarrow>
                     Inr (w\<lparr>langFiles := (langFiles w)(filename \<mapsto>
                                             lodashSet (JObj []) fullKey (JStr text')),
                            trace := trace w @ [LangFileWrite filename fullKey text',
                                                MainLangFileWrite filename]\<rparr>)
                 | Some obj \<Rightarrow>
                     updateExistingLangFile w filename obj fullKey text' validateDuplicate)
         | _ \<Rightarrow> Inr w))"

text \<open>
  \<^verbatim>\<open>readFile\<close> and \<^verbatim>\<open>writeFile\<close> of \<^verbatim>\<open>./file\<close> are not among the sources: they are
  parameters. Each is given the source files as they are on disk. \<open>readFile\<close> returns
  the text of the file, \<open>undefined\<close> (here \<open>None\<close>), or what it throws; \<open>writeFile\<close>
  returns the source files as it leaves them, or what it throws.

  \<^verbatim>\<open>
  try {
    if (needWrite) { updateLangFiles(val, finalReplaceText, validateDuplicate); }
    writeFile(filePath, newCode);
    return Promise.resolve();
  } catch (e) { return Promise.reject(e.message); }
  \<close>
  The result is the rejection, if any, and the disk afterwards.
\<close>

definition writeUpdatedFile ::
  "(files \<Rightarrow> jsstring \<Rightarrow> jsstring \<Rightarrow> error + files) \<Rightarrow> world \<Rightarrow> jsstring \<Rightarrow> jsstring \<Rightarrow>
   jsstring \<Rightarrow> jsstring \<Rightarrow> bool \<Rightarrow> bool \<Rightarrow> error option \<times> world" where
  "writeUpdatedFile writeFile w filePath newCode val finalReplaceText validateDuplicate
       needWrite' =
     (case (if needWrite' then updateLangFiles w val finalReplaceText validateDuplicate
            else Inr w) of
        Inl e \<Rightarrow> (Some e, w)
      | Inr w' \<Rightarrow>
          (case writeFile (srcFiles w') filePath newCode of
             Inl e \<Rightarrow> (Some e, w')
           | Inr files' \<Rightarrow>
               (None, w'\<lparr>srcFiles := files',
                         trace := trace w' @ [SourceWrite filePath newCode]\<rparr>)))"

text \<open>
  \<^verbatim>\<open>replaceAndUpdate\<close>. It reads the file first; when \<open>readFile\<close> throws, or returns
  \<open>undefined\<close> (the first \<^verbatim>\<open>code.slice\<close> throws then, in either branch), the call fails
  before anything is written.
\<close>

definition replaceAndUpdate ::
  "(files \<Rightarrow> jsstring \<Rightarrow> error + jsstring option) \<Rightarrow>
   (files \<Rightarrow> jsstring \<Rightarrow> jsstring \<Rightarrow> error + files) \<Rightarrow>
   world \<Rightarrow> jsstring \<Rightarrow> span \<Rightarrow> jsstring \<Rightarrow> bool \<Rightarrow> bool \<Rightarrow> error option \<times> world" where
  "replaceAndUpdate readFile writeFile w filePath arg val validateDuplicate needWrite' =
     (case readFile (srcFiles w) filePath of
        Inl e \<Rightarrow> (Some e, w)
      | Inr None \<Rightarrow> (Some TypeError, w)
      | Inr (Some code) \<Rightarrow>
          (let isHtmlFile = endsWith filePath (js ''.html'');
               isVueFile = endsWith filePath (js ''.vue'');
               finalReplaceText = span_text arg;
               start = range_start arg;
               end' = range_end arg
           in if isString arg then
                (let isPropertyAssignmentFlag = isPropertyAssignment code start;
                     isTemplateStringFlag = isTemplateString code start;
                     isInVueInterpolationFlag = isInVueInterpolation code start;
                     finalReplaceVal = generateReplaceValue val isHtmlFile isVueFile
                        isPropertyAssignmentFlag isTemplateStringFlag isInVueInterpolationFlag;
                     templateResult = handleTemplateString (span_text arg) val;
                     finalReplaceVal = (if isTemplateStringFlag then fst templateResult
                                        else finalReplaceVal);
                     finalReplaceText = (if isTemplateStringFlag then snd templateResult
                                         else finalReplaceText);
                     openPos = jsIndex (lastIndexOf code (js ''{{'') start);
                     closePos = jsIndex (indexOfFrom code (js ''}}'') end')
                 in if isVueFile \<and> isInVueInterpolationFlag \<and> openPos \<noteq> - 1 \<and> closePos \<noteq> - 1
                       \<and> start \<ge> openPos \<and> end' \<le> closePos + 2
                    then writeUpdatedFile writeFile w filePath
                           (slice code 0 (openPos + 2) @ finalReplaceVal @ slice1 code closePos)
                           val finalReplaceText validateDuplicate needWrite'
                    else writeUpdatedFile writeFile w filePath
                           (slice code 0 start @ finalReplaceVal @ slice1 code end')
                           val finalReplaceText validateDuplicate needWrite')
              else writeUpdatedFile writeFile w filePath
                     (generateNonStringReplacement code start end' val isHtmlFile isVueFile)
                     val finalReplaceText validateDuplicate needWrite'))"

text \<open>
  Modelled from the spec: \<^verbatim>\<open>getSuggestLangObj\<close> of \<^verbatim>\<open>./getLangData\<close>, which is not among
  the sources. The specification's Catalog Store loads the object of the aggregator file
  (every namespace with the object its file exports) and flattens the nested object tree
  into a map from dotted keys to strings, in the order of the tree. A leaf that is not a
  string has no entry.
\<close>

fun flattenTree :: "jsstring list \<Rightarrow> json \<Rightarrow> langObj"
  and flattenFields :: "jsstring list \<Rightarrow> (jsstring \<times> json) list \<Rightarrow> langObj" where
  "flattenTree path (JStr s) = [(joinWith (js ''.'') path, s)]"
| "flattenTree path (JObj fs) = flattenFields path fs"
| "flattenTree path JNull = []"
| "flattenTree path (JBool b) = []"
| "flattenTree path (JNum n) = []"
| "flattenTree path (JArr xs) = []"
| "flattenFields path [] = []"
| "flattenFields path ((k, v) # rest) = flattenTree (path @ [k]) v @ flattenFields path rest"


subsection \<open>The import of the lookup symbol\<close>

text \<open>
  The top-level statements of a file as the parser gives them: an import declaration
  with its clause (none for \<^verbatim>\<open>import 'x'\<close>), or anything else. A clause has a default
  name or not, and named bindings or not; named imports are listed by the names they
  bind.
\<close>

datatype namedBindings = NamedImports "jsstring list" | NamespaceImport jsstring

record importClause =
  clauseName :: "jsstring option"
  clauseBindings :: "namedBindings option"

datatype statement = ImportDeclaration "importClause option" | OtherStatement

definition checkNamedBindings :: "namedBindings \<Rightarrow> bool" where
  "checkNamedBindings nb =
     (case nb of
        NamedImports elements \<Rightarrow> list_ex (\<lambda>name. name = js ''I18N'') elements
      | NamespaceImport name \<Rightarrow> name = js ''I18N'')"

text \<open>
  \<^verbatim>\<open>
  if (importClause.name) { return importClause.name.escapedText === 'I18N'; }
  else { const namedBindings = importClause.namedBindings;
         return checkNamedBindings(namedBindings); }
  \<close>
  The parser gives every clause a name or bindings.
\<close>

definition checkImportClause :: "importClause option \<Rightarrow> bool" where
  "checkImportClause ic =
     (case ic of
        None \<Rightarrow> False
      | Some c \<Rightarrow>
          (case clauseName c of
             Some name \<Rightarrow> name = js ''I18N''
           | None \<Rightarrow>
               (case clauseBindings c of
                  Some nb \<Rightarrow> checkNamedBindings nb
                | None \<Rightarrow> False)))"

text \<open>
  The parser and the configuration the import step uses: the top-level statements of a
  text read as a typed script with markup, the offset of its first token
  (\<^verbatim>\<open>ast.getStart\<close>), and the configured import statement.
\<close>

record importEnv =
  parseStatements :: "jsstring \<Rightarrow> statement list"
  firstTokenPos :: "jsstring \<Rightarrow> int"
  importI18N :: jsstring

definition hasImportI18N :: "importEnv \<Rightarrow> jsstring \<Rightarrow> bool" where
  "hasImportI18N env code =
     foldl (\<lambda>found node.
              (case node of
                 ImportDeclaration ic \<Rightarrow> checkImportClause ic \<or> found
               | OtherStatement \<Rightarrow> found))
       False (parseStatements env code)"

definition isScriptFile :: "jsstring \<Rightarrow> bool" where
  "isScriptFile filePath =
     (endsWith filePath (js ''.ts'') \<or> endsWith filePath (js ''.tsx'') \<or>
      endsWith filePath (js ''.js'') \<or> endsWith filePath (js ''.jsx''))"

definition addImportToScriptFile :: "importEnv \<Rightarrow> jsstring \<Rightarrow> jsstring \<Rightarrow> jsstring" where
  "addImportToScriptFile env code importStatement =
     (let pos = firstTokenPos env code
      in slice code 0 pos @ importStatement @ slice1 code pos)"

text \<open>\<^verbatim>\<open>code.replace(/<script>/g, `<script>\n${importStatement}`)\<close>.\<close>

definition addImportToVueFile :: "jsstring \<Rightarrow> jsstring \<Rightarrow> jsstring" where
  "addImportToVueFile code importStatement =
     replaceAll code (js ''<script>'') (js ''<script>'' @ [10] @ importStatement)"

definition createImportI18N :: "importEnv \<Rightarrow> jsstring \<Rightarrow> jsstring \<Rightarrow> jsstring" where
  "createImportI18N env filePath code =
     (let importStatement = importI18N env @ [10]
      in if isScriptFile filePath then addImportToScriptFile env code importStatement
         else if endsWith filePath (js ''.vue'') then addImportToVueFile code importStatement
         else code)"

text \<open>
  The last step of \<^verbatim>\<open>generateKeyAndReplaceFile\<close>, after the spans are replaced:
  \<^verbatim>\<open>
  if (!hasImportI18N(currentFilename)) {
    const code = createImportI18N(currentFilename);
    writeFile(currentFilename, code);
  }
  \<close>
  It gives the text of the file afterwards.
\<close>

definition ensureImport :: "importEnv \<Rightarrow> jsstring \<Rightarrow> jsstring \<Rightarrow> jsstring" where
  "ensureImport env filePath code =
     (if \<not> hasImportI18N env code then createImportI18N env filePath code else code)"

section \<open>One file's keys (extract.ts, generateKeyAndReplaceFile)\<close>


section \<open>The words of the specification, and notions for the proofs\<close>


text \<open>A write of the catalogue, as opposed to a write of a source file.\<close>

definition isCatalogueWrite :: "event \<Rightarrow> bool" where
  "isCatalogueWrite ev =
     (case ev of LangFileWrite f k v \<Rightarrow> True | MainLangFileWrite f \<Rightarrow> True
      | SourceWrite f c \<Rightarrow> False)"

section \<open>The fragments handed to the translator\<close>




text \<open>
  C9 (second half): when the text has no letter and no character of U+4E00..U+9FA5 the
  fragment should be the sentinel, so that no fragment is empty. The code does not do
  that: \<^verbatim>\<open>text.match(reg) || []\<close> is an array, which is truthy, so the branch of the
  sentinel is never taken. The text of one character U+9FA6 passes the Chinese test of
  the extractors, and its fragment is the empty string.
\<close>

theorem getTransOriginText_can_be_empty:
  "hasChinese [0x9FA6] \<and> getTransOriginText [0x9FA6] = [] \<and>
   getTransOriginText [0x9FA6] \<noteq> sentinel"
  by (simp add: getTransOriginText_def matchGlobal_def arrayTruthy_def slice_def sentinel_def
      hasChinese_def isDoubleByte_def isKeyChar_def)

section \<open>Span normalisation\<close>

lemma set_filterTargetStrs: "set (filterTargetStrs l) \<subseteq> set l"
  by (induction l rule: filterTargetStrs.induct) auto

lemma descending_filterTargetStrs:
  "sorted_wrt (\<lambda>a b. range_start b \<le> range_start a) l \<Longrightarrow>
   sorted_wrt (\<lambda>a b. range_start b \<le> range_start a) (filterTargetStrs l)"
proof (induction l rule: filterTargetStrs.induct)
  case 1
  then show ?case by simp
next
  case (2 strObj afterStrs)
  then show ?case using set_filterTargetStrs[of afterStrs] by auto
qed

lemma descending_sortTexts:
  "sorted_wrt (\<lambda>a b. range_start b \<le> range_start a) (sortTexts found)"
proof -
  have "sorted (map (\<lambda>obj. - range_start obj) (sortTexts found))"
    by (simp add: sortTexts_def)
  then show ?thesis
    by (simp add: sorted_wrt_map)
qed

lemma descending_normalizeSpans:
  "sorted_wrt (\<lambda>a b. range_start b \<le> range_start a) (normalizeSpans found)"
  unfolding normalizeSpans_def by (rule descending_filterTargetStrs[OF descending_sortTexts])

lemma filterTargetStrs_distinct:
  assumes "sorted_wrt (\<lambda>a b. range_start b \<le> range_start a) l"
    and "distinct (map range_start l)"
  shows "filterTargetStrs l =
         filter (\<lambda>s. \<not> list_ex (\<lambda>o'. o' \<noteq> s \<and> strictlyContains (spanRange o') (spanRange s)) l) l"
  using assms
proof (induction l rule: filterTargetStrs.induct)
  case 1
  then show ?case by simp
next
  case (2 s after)
  let ?P = "\<lambda>l s. \<not> list_ex (\<lambda>o'. o' \<noteq> s \<and> strictlyContains (spanRange o') (spanRange s)) l"
  have lt: "\<And>x. x \<in> set after \<Longrightarrow> range_start x < range_start s"
    using 2(3,4) by (auto simp: order_less_le) (metis image_eqI)
  have head: "?P (s # after) s \<longleftrightarrow> \<not> list_ex (\<lambda>obj. range_end s \<le> range_end obj) after"
    using lt by (auto simp: list_ex_iff strictlyContains_def spanRange_def) force+
  have tail: "\<And>x. x \<in> set after \<Longrightarrow> ?P (s # after) x \<longleftrightarrow> ?P after x"
  proof -
    fix x assume x: "x \<in> set after"
    from lt[OF x] have "\<not> strictlyContains (spanRange s) (spanRange x)"
      by (simp add: strictlyContains_def spanRange_def)
    then show "?P (s # after) x \<longleftrightarrow> ?P after x"
      by (auto simp: list_ex_iff)
  qed
  have ih: "filterTargetStrs after = filter (?P after) after"
    using 2 by auto
  have "filter (?P (s # after)) after = filter (?P after) after"
    by (rule filter_cong) (use tail in auto)
  with ih head show ?case by simp
qed

lemma normalizeSpans_distinct:
  assumes "distinct (map range_start found)"
  shows "normalizeSpans found =
         filter (\<lambda>s. \<not> list_ex (\<lambda>o'. o' \<noteq> s \<and> strictlyContains (spanRange o') (spanRange s)) found)
           (sortTexts found)"
proof -
  have d: "distinct (map range_start (sortTexts found))"
    using assms by (simp add: sortTexts_def distinct_map)
  have same: "set (sortTexts found) = set found"
    by (simp add: sortTexts_def)
  have "\<And>s. list_ex (\<lambda>o'. o' \<noteq> s \<and> strictlyContains (spanRange o') (spanRange s)) (sortTexts found)
           = list_ex (\<lambda>o'. o' \<noteq> s \<and> strictlyContains (spanRange o') (spanRange s)) found"
    by (simp add: list_ex_iff same)
  with filterTargetStrs_distinct[OF descending_sortTexts d] show ?thesis
    by (simp add: normalizeSpans_def)
qed

lemma nestedIn_iff:
  "nestedIn item items \<longleftrightarrow>
   (\<exists>a b c d. arrf0 items = Some a \<and> arrf1 items = Some b \<and>
      arrf0 item = Some c \<and> arrf1 item = Some d \<and> strictlyContains (a, b) (c, d))"
  by (auto simp: nestedIn_def jsLess_def jsLessEq_def strictlyContains_def split: option.splits)

text \<open>
  C6, as the code has it. The claim is that normalisation keeps exactly the spans that
  no other span strictly encloses, and returns them by descending start.
  \<^item> The per-file normaliser (the stable sort by descending start of the extraction pass,
    then \<open>filterTargetStrs\<close>) returns its survivors by descending start, always.
  \<^item> When no two spans of the file start at the same offset, it keeps exactly the spans
    that no other span strictly contains. (With equal starts the order of the input
    decides; see the counterexample.)
  \<^item> \<open>filterNestedRanges\<close> of the version-2 component extractor keeps exactly the matches
    whose \<open>arrf\<close> pair no match's pair strictly contains; it does not sort.
\<close>

theorem normalizeSpans_keeps_outermost:
  "sorted_wrt (\<lambda>a b. range_start b \<le> range_start a) (normalizeSpans found) \<and>
   (distinct (map range_start found) \<longrightarrow>
      normalizeSpans found =
        filter (\<lambda>s. \<not> list_ex (\<lambda>o'. o' \<noteq> s \<and> strictlyContains (spanRange o') (spanRange s)) found)
          (sortTexts found)) \<and>
   filterNestedRanges matches =
     filter (\<lambda>item. \<not> list_ex (\<lambda>items. \<exists>a b c d. arrf0 items = Some a \<and> arrf1 items = Some b \<and>
                 arrf0 item = Some c \<and> arrf1 item = Some d \<and> strictlyContains (a, b) (c, d)) matches)
       matches"
proof -
  have "filterNestedRanges matches =
     filter (\<lambda>item. \<not> list_ex (\<lambda>items. \<exists>a b c d. arrf0 items = Some a \<and> arrf1 items = Some b \<and>
                 arrf0 item = Some c \<and> arrf1 item = Some d \<and> strictlyContains (a, b) (c, d)) matches)
       matches"
    unfolding filterNestedRanges_def
    by (rule filter_cong) (simp_all add: list_ex_iff nestedIn_iff)
  with descending_normalizeSpans normalizeSpans_distinct show ?thesis by blast
qed

text \<open>
  A file with a span of 0..20, a span of 5..10 inside it and a span of 30..40: the inner
  span is dropped, the other two come back by descending start.
\<close>

theorem normalizeSpans_keeps_outermost_witness:
  "distinct (map range_start
     [\<lparr>range_start = 0, range_end = 20, span_text = [0x4F60], isString = True\<rparr>,
      \<lparr>range_start = 5, range_end = 10, span_text = [0x597D], isString = True\<rparr>,
      \<lparr>range_start = 30, range_end = 40, span_text = [0x4E16], isString = False\<rparr>]) \<and>
   normalizeSpans
     [\<lparr>range_start = 0, range_end = 20, span_text = [0x4F60], isString = True\<rparr>,
      \<lparr>range_start = 5, range_end = 10, span_text = [0x597D], isString = True\<rparr>,
      \<lparr>range_start = 30, range_end = 40, span_text = [0x4E16], isString = False\<rparr>]
   = [\<lparr>range_start = 30, range_end = 40, span_text = [0x4E16], isString = False\<rparr>,
      \<lparr>range_start = 0, range_end = 20, span_text = [0x4F60], isString = True\<rparr>]"
  using normalizeSpans_keeps_outermost
    [of "[\<lparr>range_start = 0, range_end = 20, span_text = [0x4F60], isString = True\<rparr>,
          \<lparr>range_start = 5, range_end = 10, span_text = [0x597D], isString = True\<rparr>,
          \<lparr>range_start = 30, range_end = 40, span_text = [0x4E16], isString = False\<rparr>]" "[]"]
  by (simp add: sortTexts_def strictlyContains_def spanRange_def)

text \<open>
  C6 as stated fails: two spans that start at the same offset, 5..10 and then 5..8. The
  second is strictly contained in the first, and both are kept.
\<close>

theorem normalizeSpans_keeps_enclosed_span:
  "normalizeSpans
     [\<lparr>range_start = 5, range_end = 10, span_text = [0x4F60], isString = True\<rparr>,
      \<lparr>range_start = 5, range_end = 8, span_text = [0x597D], isString = True\<rparr>]
   = [\<lparr>range_start = 5, range_end = 10, span_text = [0x4F60], isString = True\<rparr>,
      \<lparr>range_start = 5, range_end = 8, span_text = [0x597D], isString = True\<rparr>] \<and>
   strictlyContains
     (spanRange \<lparr>range_start = 5, range_end = 10, span_text = [0x4F60], isString = True\<rparr>)
     (spanRange \<lparr>range_start = 5, range_end = 8, span_text = [0x597D], isString = True\<rparr>)"
  by (simp add: normalizeSpans_def sortTexts_def strictlyContains_def spanRange_def)

section \<open>Key synthesis: the collision loop\<close>






lemma keys_setKey: "set (map fst (setKey obj k v)) = insert k (set (map fst obj))"
  by (induction obj k v rule: setKey.induct) auto











section \<open>The order of translation and of key assignment\<close>














section \<open>A parser that throws during the extraction pass\<close>

lemma collectTexts_first_failure:
  "list_all (\<lambda>f. \<not> isl (findChineseText ps cfg (readFile f) f)) good \<Longrightarrow>
   findChineseText ps cfg (readFile f) f = Inl e \<Longrightarrow>
   collectTexts ps cfg readFile pre (good @ f # rest) = Inl e"
proof (induction good arbitrary: pre)
  case Nil
  then show ?case by simp
next
  case (Cons g good)
  then obtain found where "findChineseText ps cfg (readFile g) g = Inr found"
    by (cases "findChineseText ps cfg (readFile g) g") auto
  with Cons show ?case by simp
qed

lemma collectTexts_succeeds:
  "list_all (\<lambda>f. \<not> isl (findChineseText ps cfg (readFile f) f)) files \<Longrightarrow>
   collectTexts ps cfg readFile pre files =
     Inr (pre @ map (\<lambda>f. \<lparr>item_file = f, texts = sortTexts (projr (findChineseText ps cfg (readFile f) f))\<rparr>)
                 (filter (\<lambda>f. length (projr (findChineseText ps cfg (readFile f) f)) > 0) files))"
proof (induction files arbitrary: pre)
  case Nil
  then show ?case by simp
next
  case (Cons g files)
  then obtain found where "findChineseText ps cfg (readFile g) g = Inr found"
    by (cases "findChineseText ps cfg (readFile g) g") auto
  with Cons show ?case by simp
qed

lemma endsWith_last: "endsWith s p \<Longrightarrow> p \<noteq> [] \<Longrightarrow> last s = last p"
  unfolding endsWith_def by (metis last_drop length_greater_0_conv diff_less order_less_le_trans  drop_eq_Nil leD)

lemma js_file_dispatch:
  assumes "endsWith fileName (js ''.js'') \<or> endsWith fileName (js ''.jsx'')"
  shows "findChineseText ps cfg code fileName = findTextInJs ps code"
proof -
  from assms have "last fileName = 115 \<or> last fileName = 120"
    using endsWith_last[of fileName "js ''.js''"] endsWith_last[of fileName "js ''.jsx''"]
    by (auto simp: js_def)
  then have "\<not> endsWith fileName (js ''.html'')" "\<not> endsWith fileName (js ''.vue'')"
    using endsWith_last[of fileName "js ''.html''"] endsWith_last[of fileName "js ''.vue''"]
    by (auto simp: js_def)
  with assms show ?thesis by (simp add: findChineseText_def)
qed

text \<open>
  C8, as the code has it. The claim is that a file whose parser rejects it is skipped and
  the pass goes on. Nothing in \<open>findAllChineseText\<close> catches what an extractor throws:
  \<^item> when the extractors succeed on the files before \<open>f\<close> and the extractor of \<open>f\<close>
    throws \<open>e\<close>, the whole pass throws \<open>e\<close>: no work item comes back, for any file;
  \<^item> when every extractor succeeds, the pass returns one work item for each file that has
    a match, in the order of the files;
  \<^item> a \<open>.js\<close> or \<open>.jsx\<close> file goes to \<open>findTextInJs\<close>, whose parser throws on a syntax
    error.
\<close>

theorem parse_failure_aborts_extraction:
  "(filter (isCodeFile isFile) files = good @ f # rest \<and>
    list_all (\<lambda>g. \<not> isl (findChineseText ps cfg (readFile g) g)) good \<and>
    findChineseText ps cfg (readFile f) f = Inl e
    \<longrightarrow> findAllChineseText ps cfg isFile readFile files = Inl e) \<and>
   (list_all (\<lambda>g. \<not> isl (findChineseText ps cfg (readFile g) g)) (filter (isCodeFile isFile) files)
    \<longrightarrow> findAllChineseText ps cfg isFile readFile files =
          Inr (map (\<lambda>g. \<lparr>item_file = g,
                          texts = sortTexts (projr (findChineseText ps cfg (readFile g) g))\<rparr>)
                 (filter (\<lambda>g. length (projr (findChineseText ps cfg (readFile g) g)) > 0)
                    (filter (isCodeFile isFile) files)))) \<and>
   (endsWith f (js ''.js'') \<or> endsWith f (js ''.jsx'')
    \<longrightarrow> findChineseText ps cfg (readFile f) f = findTextInJs ps (readFile f))"
proof (intro conjI impI)
  assume "filter (isCodeFile isFile) files = good @ f # rest \<and>
    list_all (\<lambda>g. \<not> isl (findChineseText ps cfg (readFile g) g)) good \<and>
    findChineseText ps cfg (readFile f) f = Inl e"
  then show "findAllChineseText ps cfg isFile readFile files = Inl e"
    by (simp add: findAllChineseText_def collectTexts_first_failure)
next
  assume "list_all (\<lambda>g. \<not> isl (findChineseText ps cfg (readFile g) g)) (filter (isCodeFile isFile) files)"
  from collectTexts_succeeds[OF this, of "[]"]
  show "findAllChineseText ps cfg isFile readFile files =
          Inr (map (\<lambda>g. \<lparr>item_file = g,
                          texts = sortTexts (projr (findChineseText ps cfg (readFile g) g))\<rparr>)
                 (filter (\<lambda>g. length (projr (findChineseText ps cfg (readFile g) g)) > 0)
                    (filter (isCodeFile isFile) files)))"
    by (simp add: findAllChineseText_def)
next
  assume "endsWith f (js ''.js'') \<or> endsWith f (js ''.jsx'')"
  then show "findChineseText ps cfg (readFile f) f = findTextInJs ps (readFile f)"
    by (rule js_file_dispatch)
qed

text \<open>
  Three files, the second a script file the parser rejects: the pass throws.
\<close>

theorem parse_failure_aborts_extraction_witness:
  "filter (isCodeFile (\<lambda>f. True)) [js ''good.ts'', js ''bad.js'', js ''other.ts'']
     = [js ''good.ts''] @ js ''bad.js'' # [js ''other.ts''] \<and>
   endsWith (js ''bad.js'') (js ''.js'') \<and>
   findAllChineseText
     \<lparr>findTextInTs = (\<lambda>code fileName.
          Inr [\<lparr>range_start = 0, range_end = 3, span_text = [0x4F60], isString = True\<rparr>]),
      findTextInJs = (\<lambda>code. Inl ParseError),
      findTextInVue2 = (\<lambda>code. Inr []), vue3Try = (\<lambda>code. Inr []),
      parseTemplate = (\<lambda>code. Inr []), jsonParse = (\<lambda>code. Inl ParseError)\<rparr>
     Absent (\<lambda>f. True) (\<lambda>f. []) [js ''good.ts'', js ''bad.js'', js ''other.ts'']
   = Inl ParseError"
proof -
  let ?ps = "\<lparr>findTextInTs = (\<lambda>code fileName.
          Inr [\<lparr>range_start = 0, range_end = 3, span_text = [0x4F60], isString = True\<rparr>]),
      findTextInJs = (\<lambda>code. Inl ParseError),
      findTextInVue2 = (\<lambda>code. Inr []), vue3Try = (\<lambda>code. Inr []),
      parseTemplate = (\<lambda>code. Inr []), jsonParse = (\<lambda>code. Inl ParseError)\<rparr>"
  have files: "filter (isCodeFile (\<lambda>f. True)) [js ''good.ts'', js ''bad.js'', js ''other.ts'']
     = [js ''good.ts''] @ js ''bad.js'' # [js ''other.ts'']"
    by (simp add: isCodeFile_def endsWith_def js_def)
  have good: "list_all (\<lambda>g. \<not> isl (findChineseText ?ps Absent [] g)) [js ''good.ts'']"
    by (simp add: findChineseText_def endsWith_def js_def)
  have bad: "findChineseText ?ps Absent [] (js ''bad.js'') = Inl ParseError"
    by (simp add: findChineseText_def endsWith_def js_def)
  have ew: "endsWith (js ''bad.js'') (js ''.js'')"
    by (simp add: endsWith_def js_def)
  from parse_failure_aborts_extraction
         [where isFile = "\<lambda>f. True" and files = "[js ''good.ts'', js ''bad.js'', js ''other.ts'']"
            and good = "[js ''good.ts'']" and f = "js ''bad.js''" and rest = "[js ''other.ts'']"
            and ps = ?ps and cfg = Absent and readFile = "\<lambda>f. []" and e = ParseError,
          THEN conjunct1] files good bad
  have "findAllChineseText ?ps Absent (\<lambda>f. True) (\<lambda>f. [])
          [js ''good.ts'', js ''bad.js'', js ''other.ts''] = Inl ParseError"
    by blast
  with files ew show ?thesis by blast
qed

text \<open>
  C8 as stated fails: with a script file the parser rejects, the pass returns no work
  item, though the other file alone gives one.
\<close>

theorem parse_failure_loses_other_files:
  "findAllChineseText
     \<lparr>findTextInTs = (\<lambda>code fileName.
          Inr [\<lparr>range_start = 0, range_end = 3, span_text = [0x4F60], isString = True\<rparr>]),
      findTextInJs = (\<lambda>code. Inl ParseError),
      findTextInVue2 = (\<lambda>code. Inr []), vue3Try = (\<lambda>code. Inr []),
      parseTemplate = (\<lambda>code. Inr []), jsonParse = (\<lambda>code. Inl ParseError)\<rparr>
     Absent (\<lambda>f. True) (\<lambda>f. []) [js ''good.ts'', js ''bad.js'']
   = Inl ParseError \<and>
   findAllChineseText
     \<lparr>findTextInTs = (\<lambda>code fileName.
          Inr [\<lparr>range_start = 0, range_end = 3, span_text = [0x4F60], isString = True\<rparr>]),
      findTextInJs = (\<lambda>code. Inl ParseError),
      findTextInVue2 = (\<lambda>code. Inr []), vue3Try = (\<lambda>code. Inr []),
      parseTemplate = (\<lambda>code. Inr []), jsonParse = (\<lambda>code. Inl ParseError)\<rparr>
     Absent (\<lambda>f. True) (\<lambda>f. []) [js ''good.ts'']
   = Inr [\<lparr>item_file = js ''good.ts'',
           texts = [\<lparr>range_start = 0, range_end = 3, span_text = [0x4F60], isString = True\<rparr>]\<rparr>]"
  by (simp add: findAllChineseText_def isCodeFile_def findChineseText_def endsWith_def
      sortTexts_def js_def)

section \<open>The component-file extractor and the configuration file\<close>

text \<open>
  C10: \<open>findTextInVue\<close> chooses its variant from \<open>kiwi.config.json\<close> as the file is when
  it is called (the file is an argument of the model: nothing is remembered between
  calls).
  \<^item> The version-2 extractor runs exactly when the file can be read, parses to an object,
    and the \<open>vueVersion\<close> of the object is the string \<open>vue2\<close>. In every other case the
    version-3 extractor runs.
  \<^item> The version read is \<open>vue3\<close> when the file is absent, when reading it throws, when
    it does not parse, when it holds \<open>null\<close> (reading the property throws, and the throw
    is caught) or any other value that is not an object, and when the object has no
    \<open>vueVersion\<close>. When the object has one, the version is that value if it is truthy and
    \<open>vue3\<close> if not.
  \<^item> Whenever the version read is \<open>vue3\<close> the call is the call of \<open>findTextInVue3\<close>:
    nothing is thrown for the configuration and the version-2 extractor is not chosen.
    (\<open>findTextInVue3\<close> itself returns what the version-3 compiler gave when it did not
    throw.)
\<close>

theorem component_extractor_defaults_to_version3:
  "findTextInVue ps cfg code =
     (case cfg of
        Readable content \<Rightarrow>
          (case jsonParse ps content of
             Inr (JObj fs) \<Rightarrow>
               if map_of fs (js ''vueVersion'') = Some (JStr (js ''vue2''))
               then findTextInVue2 ps code else findTextInVue3 ps code
           | _ \<Rightarrow> findTextInVue3 ps code)
      | _ \<Rightarrow> findTextInVue3 ps code) \<and>
   getVueVersionFromConfig ps Absent = JStr (js ''vue3'') \<and>
   getVueVersionFromConfig ps Unreadable = JStr (js ''vue3'') \<and>
   (jsonParse ps content = Inl e \<longrightarrow>
      getVueVersionFromConfig ps (Readable content) = JStr (js ''vue3'')) \<and>
   (jsonParse ps content = Inr config \<and> (\<forall>fs. config \<noteq> JObj fs) \<longrightarrow>
      getVueVersionFromConfig ps (Readable content) = JStr (js ''vue3'')) \<and>
   (jsonParse ps content = Inr (JObj fs) \<and> map_of fs (js ''vueVersion'') = None \<longrightarrow>
      getVueVersionFromConfig ps (Readable content) = JStr (js ''vue3'')) \<and>
   (jsonParse ps content = Inr (JObj fs) \<and> map_of fs (js ''vueVersion'') = Some v \<longrightarrow>
      getVueVersionFromConfig ps (Readable content) = (if jsonTruthy v then v else JStr (js ''vue3''))) \<and>
   (getVueVersionFromConfig ps cfg = JStr (js ''vue3'') \<longrightarrow>
      findTextInVue ps cfg code = findTextInVue3 ps code) \<and>
   (vue3Try ps code = Inr matches \<longrightarrow> findTextInVue3 ps code = Inr matches)"
proof -
  have ne: "JStr (js ''vue3'') \<noteq> JStr (js ''vue2'')"
    by (simp add: js_def)
  have t2: "jsonTruthy (JStr (js ''vue2''))"
    by (simp add: jsonTruthy_def js_def)
  have a: "findTextInVue ps cfg code =
     (case cfg of
        Readable content \<Rightarrow>
          (case jsonParse ps content of
             Inr (JObj fs) \<Rightarrow>
               if map_of fs (js ''vueVersion'') = Some (JStr (js ''vue2''))
               then findTextInVue2 ps code else findTextInVue3 ps code
           | _ \<Rightarrow> findTextInVue3 ps code)
      | _ \<Rightarrow> findTextInVue3 ps code)"
    using ne t2
    by (auto simp: findTextInVue_def getVueVersionFromConfig_def getProperty_def Let_def
        split: configFile.splits sum.splits json.splits option.splits)
  have b: "getVueVersionFromConfig ps Absent = JStr (js ''vue3'')"
    and c: "getVueVersionFromConfig ps Unreadable = JStr (js ''vue3'')"
    by (simp_all add: getVueVersionFromConfig_def)
  have d: "jsonParse ps content = Inl e \<longrightarrow>
      getVueVersionFromConfig ps (Readable content) = JStr (js ''vue3'')"
    by (simp add: getVueVersionFromConfig_def)
  have e: "jsonParse ps content = Inr config \<and> (\<forall>fs. config \<noteq> JObj fs) \<longrightarrow>
      getVueVersionFromConfig ps (Readable content) = JStr (js ''vue3'')"
    by (cases config) (simp_all add: getVueVersionFromConfig_def getProperty_def)
  have f: "jsonParse ps content = Inr (JObj fs) \<and> map_of fs (js ''vueVersion'') = None \<longrightarrow>
      getVueVersionFromConfig ps (Readable content) = JStr (js ''vue3'')"
    by (simp add: getVueVersionFromConfig_def getProperty_def)
  have g: "jsonParse ps content = Inr (JObj fs) \<and> map_of fs (js ''vueVersion'') = Some v \<longrightarrow>
      getVueVersionFromConfig ps (Readable content) = (if jsonTruthy v then v else JStr (js ''vue3''))"
    by (simp add: getVueVersionFromConfig_def getProperty_def)
  have h: "getVueVersionFromConfig ps cfg = JStr (js ''vue3'') \<longrightarrow>
      findTextInVue ps cfg code = findTextInVue3 ps code"
    using ne by (simp add: findTextInVue_def Let_def)
  have i: "vue3Try ps code = Inr matches \<longrightarrow> findTextInVue3 ps code = Inr matches"
    by (simp add: findTextInVue3_def)
  show ?thesis
    by (rule conjI[OF a conjI[OF b conjI[OF c conjI[OF d conjI[OF e conjI[OF f conjI[OF g conjI[OF h i]]]]]]]])
qed


text \<open>
  A component file with one text node, under four configuration files: one that asks for
  \<open>vue2\<close> (the spans are those of the version-2 extractor), the empty object, \<open>null\<close>,
  and a text that does not parse; and with no configuration file. (The two extractors are
  parameters: here they give spans that differ, so that the choice shows.)
\<close>

theorem component_extractor_defaults_to_version3_witness:
  "(let ps = \<lparr>findTextInTs = (\<lambda>code fileName. Inr []), findTextInJs = (\<lambda>code. Inr []),
            findTextInVue2 = (\<lambda>code.
              Inr [\<lparr>range_start = 13, range_end = 17, span_text = [32, 0x786E, 0x5B9A, 32],
                    isString = False\<rparr>]),
            vue3Try = (\<lambda>code.
              Inr [\<lparr>range_start = 13, range_end = 17, span_text = [0x786E, 0x5B9A],
                    isString = False\<rparr>]),
            parseTemplate = (\<lambda>code. Inr []),
            jsonParse = (\<lambda>s.
              if s = js ''{'' @ [34] @ js ''vueVersion'' @ [34] @ js '':'' @ [34] @ js ''vue2'' @ [34] @ js ''}''
              then Inr (JObj [(js ''vueVersion'', JStr (js ''vue2''))])
              else if s = js ''{}'' then Inr (JObj [])
              else if s = js ''null'' then Inr JNull
              else Inl ParseError)\<rparr>;
        code = js ''<template><p> '' @ [0x786E, 0x5B9A] @ js '' </p></template>'';
        vue2File = js ''{'' @ [34] @ js ''vueVersion'' @ [34] @ js '':'' @ [34] @ js ''vue2'' @ [34] @ js ''}''
    in findTextInVue ps (Readable vue2File) code
         = Inr [\<lparr>range_start = 13, range_end = 17, span_text = [32, 0x786E, 0x5B9A, 32],
                 isString = False\<rparr>] \<and>
       getVueVersionFromConfig ps (Readable vue2File) = JStr (js ''vue2'') \<and>
       jsonParse ps (js ''{}'') = Inr (JObj []) \<and>
       findTextInVue ps (Readable (js ''{}'')) code
         = Inr [\<lparr>range_start = 13, range_end = 17, span_text = [0x786E, 0x5B9A],
                 isString = False\<rparr>] \<and>
       jsonParse ps (js ''null'') = Inr JNull \<and>
       getVueVersionFromConfig ps (Readable (js ''null'')) = JStr (js ''vue3'') \<and>
       jsonParse ps (js ''{'') = Inl ParseError \<and>
       getVueVersionFromConfig ps (Readable (js ''{'')) = JStr (js ''vue3'') \<and>
       findTextInVue ps Absent code
         = Inr [\<lparr>range_start = 13, range_end = 17, span_text = [0x786E, 0x5B9A],
                 isString = False\<rparr>])"
proof -
  let ?ps = "\<lparr>findTextInTs = (\<lambda>code fileName. Inr []), findTextInJs = (\<lambda>code. Inr []),
      findTextInVue2 = (\<lambda>code.
        Inr [\<lparr>range_start = 13, range_end = 17, span_text = [32, 0x786E, 0x5B9A, 32],
              isString = False\<rparr>]),
      vue3Try = (\<lambda>code.
        Inr [\<lparr>range_start = 13, range_end = 17, span_text = [0x786E, 0x5B9A],
              isString = False\<rparr>]),
      parseTemplate = (\<lambda>code. Inr []),
      jsonParse = (\<lambda>s.
        if s = js ''{'' @ [34] @ js ''vueVersion'' @ [34] @ js '':'' @ [34] @ js ''vue2'' @ [34] @ js ''}''
        then Inr (JObj [(js ''vueVersion'', JStr (js ''vue2''))])
        else if s = js ''{}'' then Inr (JObj [])
        else if s = js ''null'' then Inr JNull
        else Inl ParseError)\<rparr>"
  let ?code = "js ''<template><p> '' @ [0x786E, 0x5B9A] @ js '' </p></template>''"
  let ?v2 = "js ''{'' @ [34] @ js ''vueVersion'' @ [34] @ js '':'' @ [34] @ js ''vue2'' @ [34] @ js ''}''"
  let ?s2 = "\<lparr>range_start = 13, range_end = 17, span_text = [32, 0x786E, 0x5B9A, 32], isString = False\<rparr>"
  let ?s3 = "\<lparr>range_start = 13, range_end = 17, span_text = [0x786E, 0x5B9A], isString = False\<rparr>"
  note T = component_extractor_defaults_to_version3
  have p2: "jsonParse ?ps ?v2 = Inr (JObj [(js ''vueVersion'', JStr (js ''vue2''))])"
    by simp
  have pe: "jsonParse ?ps (js ''{}'') = Inr (JObj [])"
    by (simp add: js_def)
  have pn: "jsonParse ?ps (js ''null'') = Inr JNull"
    by (simp add: js_def)
  have pb: "jsonParse ?ps (js ''{'') = Inl ParseError"
    by (simp add: js_def)
  have m2: "map_of [(js ''vueVersion'', JStr (js ''vue2''))] (js ''vueVersion'') = Some (JStr (js ''vue2''))"
    by simp
  have t3: "vue3Try ?ps ?code = Inr [?s3]" by simp
  from T[where ps = ?ps and code = ?code and matches = "[?s3]", THEN conjunct2, THEN conjunct2,
         THEN conjunct2, THEN conjunct2, THEN conjunct2, THEN conjunct2, THEN conjunct2,
         THEN conjunct2] t3
  have f3: "findTextInVue3 ?ps ?code = Inr [?s3]" by blast
  from T[where ps = ?ps and cfg = "Readable ?v2" and code = ?code, THEN conjunct1]
  have w1: "findTextInVue ?ps (Readable ?v2) ?code = Inr [?s2]"
    unfolding configFile.case p2 sum.case json.case m2 by simp
  from T[where ps = ?ps and content = ?v2 and fs = "[(js ''vueVersion'', JStr (js ''vue2''))]"
           and v = "JStr (js ''vue2'')", THEN conjunct2, THEN conjunct2, THEN conjunct2,
         THEN conjunct2, THEN conjunct2, THEN conjunct2, THEN conjunct1] p2 m2
  have w2: "getVueVersionFromConfig ?ps (Readable ?v2) = JStr (js ''vue2'')"
    by (simp add: jsonTruthy_def js_def)
  from T[where ps = ?ps and content = "js ''{}''" and fs = "[]", THEN conjunct2, THEN conjunct2,
         THEN conjunct2, THEN conjunct2, THEN conjunct2, THEN conjunct1] pe
  have v3e: "getVueVersionFromConfig ?ps (Readable (js ''{}'')) = JStr (js ''vue3'')"
    by simp
  from T[where ps = ?ps and cfg = "Readable (js ''{}'')" and code = ?code, THEN conjunct2,
         THEN conjunct2, THEN conjunct2, THEN conjunct2, THEN conjunct2, THEN conjunct2,
         THEN conjunct2, THEN conjunct1] v3e f3
  have w3: "findTextInVue ?ps (Readable (js ''{}'')) ?code = Inr [?s3]"
    by simp
  from T[where ps = ?ps and content = "js ''null''" and config = JNull, THEN conjunct2,
         THEN conjunct2, THEN conjunct2, THEN conjunct2, THEN conjunct1] pn
  have w4: "getVueVersionFromConfig ?ps (Readable (js ''null'')) = JStr (js ''vue3'')"
    by simp
  from T[where ps = ?ps and content = "js ''{''" and e = ParseError, THEN conjunct2,
         THEN conjunct2, THEN conjunct2, THEN conjunct1] pb
  have w5: "getVueVersionFromConfig ?ps (Readable (js ''{'')) = JStr (js ''vue3'')"
    by simp
  from T[where ps = ?ps and cfg = Absent and code = ?code, THEN conjunct1] f3
  have w6: "findTextInVue ?ps Absent ?code = Inr [?s3]"
    by simp
  show ?thesis
    unfolding Let_def
    by (rule conjI[OF w1 conjI[OF w2 conjI[OF pe conjI[OF w3 conjI[OF pn conjI[OF w4
                conjI[OF pb conjI[OF w5 w6]]]]]]]])
qed

section \<open>The range of a match in an interpolation of a markup file\<close>

text \<open>
  C3: every span of \<open>findChineseText\<close> should satisfy \<open>0 \<le> start < end \<le> length\<close>, with
  a Chinese character in the source between \<open>start\<close> and \<open>end\<close>. \<open>handleObjectValue\<close>
  looks the match up in the text of the node and stores the position it finds there as
  the range, without adding the offset of the node, as \<open>handleStringValue\<close> and the other
  extractors do. For the markup file \<^verbatim>\<open><p>{{ 'X' }}</p>\<close>, with the character U+4E2D for
  X, whose bound text node spans 3..12, the span is 4..5: the source there is an opening
  brace, and the character is at 7..8.
\<close>

theorem handleObjectValue_range_is_relative:
  "findChineseText
     \<lparr>findTextInTs = (\<lambda>code fileName. Inr []), findTextInJs = (\<lambda>code. Inr []),
      findTextInVue2 = (\<lambda>code. Inr []), vue3Try = (\<lambda>code. Inr []),
      parseTemplate = (\<lambda>code.
        Inr [HtmlNode NoValue None (0, 16)
               [HtmlNode (ObjectValue (Some (js ''{{ '' @ [39, 0x4E2D, 39] @ js '' }}'')))
                  None (3, 12) [] []]
               []]),
      jsonParse = (\<lambda>s. Inl ParseError)\<rparr>
     Absent (js ''<p>{{ '' @ [39, 0x4E2D, 39] @ js '' }}</p>'') (js ''index.html'')
   = Inr [\<lparr>range_start = 4, range_end = 5, span_text = [0x4E2D], isString = False\<rparr>] \<and>
   slice (js ''<p>{{ '' @ [39, 0x4E2D, 39] @ js '' }}</p>'') 4 5 = js ''{'' \<and>
   \<not> hasChinese (slice (js ''<p>{{ '' @ [39, 0x4E2D, 39] @ js '' }}</p>'') 4 5) \<and>
   slice (js ''<p>{{ '' @ [39, 0x4E2D, 39] @ js '' }}</p>'') 7 8 = [0x4E2D]"
  by (simp add: findChineseText_def findTextInHtml_def handleObjectValue_def hasChinese_def
      isDoubleByte_def jsIndex_def slice_def startsWith_def endsWith_def Let_def js_def)

section \<open>The import of the lookup symbol\<close>

text \<open>
  C5: a rewritten file should hold exactly one import of \<open>I18N\<close>. The code misses
  cases:
  \<^item> \<open>addImportToVueFile\<close> looks for the text \<^verbatim>\<open><script>\<close> only, so a component file whose
    script tag has an attribute (here \<^verbatim>\<open><script setup>\<close>) is returned as it is, whatever
    the parser says: the file refers to \<open>I18N\<close> and has no import;
  \<^item> \<open>checkImportClause\<close> does not look at the named bindings of a clause that has a
    default name, so \<^verbatim>\<open>import React, { I18N } from 'x'\<close> does not count as an import of
    \<open>I18N\<close>, and a second import is added;
  \<^item> the replacement is global, so a text with \<^verbatim>\<open><script>\<close> twice gets the import
    twice.
\<close>

theorem import_is_not_added_to_script_setup:
  "ensureImport env (js ''App.vue'')
     (js ''<template><p>{{I18N.a.b}}</p></template><script setup>const t = 1</script>'')
   = js ''<template><p>{{I18N.a.b}}</p></template><script setup>const t = 1</script>'' \<and>
   checkImportClause
     (Some \<lparr>clauseName = Some (js ''React''),
            clauseBindings = Some (NamedImports [js ''I18N''])\<rparr>) = False \<and>
   addImportToVueFile (js ''<script></script><script></script>'') (js ''import I18N;'' @ [10])
   = js ''<script>'' @ [10] @ js ''import I18N;'' @ [10] @ js ''</script><script>'' @ [10]
     @ js ''import I18N;'' @ [10] @ js ''</script>''"
proof -
  let ?code = "js ''<template><p>{{I18N.a.b}}</p></template><script setup>const t = 1</script>''"
  have "addImportToVueFile ?code r = ?code" for r
    unfolding addImportToVueFile_def
    by (simp add: js_def startsWith_def)
  moreover have "\<not> isScriptFile (js ''App.vue'')" "endsWith (js ''App.vue'') (js ''.vue'')"
    by (simp_all add: isScriptFile_def endsWith_def js_def)
  ultimately have a: "ensureImport env (js ''App.vue'') ?code = ?code"
    by (simp add: ensureImport_def createImportI18N_def Let_def)
  have b: "checkImportClause
     (Some \<lparr>clauseName = Some (js ''React''),
            clauseBindings = Some (NamedImports [js ''I18N''])\<rparr>) = False"
    by (simp add: checkImportClause_def js_def)
  have c: "addImportToVueFile (js ''<script></script><script></script>'') (js ''import I18N;'' @ [10])
   = js ''<script>'' @ [10] @ js ''import I18N;'' @ [10] @ js ''</script><script>'' @ [10]
     @ js ''import I18N;'' @ [10] @ js ''</script>''"
    by (simp add: addImportToVueFile_def js_def startsWith_def)
  from a b c show ?thesis by simp
qed

section \<open>The order of the catalogue write and the source write\<close>

lemma splitOn_nonempty: "splitOn d s \<noteq> []"
  by (induction s) (auto split: list.splits)

lemma splitOn_I18N:
  assumes "startsWith keyValue (js ''I18N.'')"
  shows "\<exists>filename restPath. splitOn 46 keyValue = js ''I18N'' # filename # restPath"
proof -
  have len: "length (js ''I18N.'') = 5" by (simp add: js_def)
  from assms have "take 5 keyValue = js ''I18N.''"
    unfolding startsWith_def len .
  then have kv: "keyValue = js ''I18N.'' @ drop 5 keyValue"
    by (metis append_take_drop_id)
  obtain b r where br: "splitOn 46 (drop 5 keyValue) = b # r"
    using splitOn_nonempty[of 46 "drop 5 keyValue"] by (cases "splitOn 46 (drop 5 keyValue)") auto
  have "splitOn 46 (js ''I18N.'' @ drop 5 keyValue) = js ''I18N'' # b # r"
    by (simp add: br js_def)
  with kv show ?thesis by metis
qed

lemma updateLangFiles_trace:
  assumes "startsWith keyValue (js ''I18N.'')"
    and "updateLangFiles w keyValue t vd = Inr w'"
  shows "\<exists>ns k v more. trace w' = trace w @ LangFileWrite ns k v # more \<and>
           list_all isCatalogueWrite more"
proof -
  from splitOn_I18N[OF assms(1)] obtain filename restPath where
    sp: "splitOn 46 keyValue = js ''I18N'' # filename # restPath" by blast
  show ?thesis
  proof (cases "langFiles w filename")
    case None
    with assms sp show ?thesis
      by (auto simp: updateLangFiles_def Let_def isCatalogueWrite_def)
  next
    case (Some obj)
    with assms sp show ?thesis
      by (auto simp: updateLangFiles_def updateExistingLangFile_def Let_def isCatalogueWrite_def
          split: if_splits)
  qed
qed

lemma updateLangFiles_srcFiles:
  "updateLangFiles w keyValue t vd = Inr w' \<Longrightarrow> srcFiles w' = srcFiles w"
  by (auto simp: updateLangFiles_def updateExistingLangFile_def Let_def
      split: if_splits list.splits option.splits)

lemma writeUpdatedFile_order:
  assumes "needWrite'" and "startsWith val (js ''I18N.'')"
    and "fst (writeUpdatedFile writeFile w filePath newCode val t vd needWrite') = None"
  shows "\<exists>ns k v more.
         trace (snd (writeUpdatedFile writeFile w filePath newCode val t vd needWrite'))
           = trace w @ LangFileWrite ns k v # more @ [SourceWrite filePath newCode] \<and>
         list_all isCatalogueWrite more"
proof -
  from assms obtain w' where u: "updateLangFiles w val t vd = Inr w'"
    by (cases "updateLangFiles w val t vd") (auto simp: writeUpdatedFile_def)
  from assms u obtain files' where f: "writeFile (srcFiles w') filePath newCode = Inr files'"
    by (cases "writeFile (srcFiles w') filePath newCode") (auto simp: writeUpdatedFile_def)
  from updateLangFiles_trace[OF assms(2) u] obtain ns k v more where
    tr: "trace w' = trace w @ LangFileWrite ns k v # more" and cw: "list_all isCatalogueWrite more"
    by blast
  from assms(1) u f have "trace (snd (writeUpdatedFile writeFile w filePath newCode val t vd needWrite'))
          = trace w' @ [SourceWrite filePath newCode]"
    by (simp add: writeUpdatedFile_def)
  with tr cw show ?thesis by auto
qed

lemma replaceAndUpdate_read:
  "fst (replaceAndUpdate readFile writeFile w filePath arg val vd nw) = None \<Longrightarrow>
   \<exists>newCode t. replaceAndUpdate readFile writeFile w filePath arg val vd nw
                 = writeUpdatedFile writeFile w filePath newCode val t vd nw"
  by (auto simp: replaceAndUpdate_def Let_def split: sum.splits option.splits)

text \<open>
  C7, as the code has it. The claim is that the catalogue is committed only after the
  source file is written. \<open>writeUpdatedFile\<close> does it the other way round, and so does
  \<open>replaceAndUpdate\<close>, which reads the file and calls it:
  \<^item> for a span that needs a catalogue write, with a key that starts with \<open>I18N.\<close>, a call
    that succeeds writes the catalogue file first (then the aggregator file when the
    catalogue file is new) and calls \<open>writeFile\<close> for the source file last;
  \<^item> when the catalogue update throws, the call is rejected and nothing is written:
    \<open>writeFile\<close> is not called;
  \<^item> when \<open>writeFile\<close> throws, the call is rejected and the catalogue is already written;
  \<^item> after a call that succeeds the source files are as \<open>writeFile\<close> left them;
  \<^item> without the flag, a call that succeeds writes the source file only.
\<close>

theorem catalogue_is_written_before_source:
  "(needWrite' \<and> startsWith val (js ''I18N.'') \<and>
    fst (writeUpdatedFile writeFile w filePath newCode val t vd needWrite') = None \<longrightarrow>
      (\<exists>ns k v more.
         trace (snd (writeUpdatedFile writeFile w filePath newCode val t vd needWrite'))
           = trace w @ LangFileWrite ns k v # more @ [SourceWrite filePath newCode] \<and>
         list_all isCatalogueWrite more)) \<and>
   (needWrite' \<and> startsWith val (js ''I18N.'') \<and>
    fst (replaceAndUpdate readFile writeFile w filePath arg val vd needWrite') = None \<longrightarrow>
      (\<exists>ns k v more newCode'.
         trace (snd (replaceAndUpdate readFile writeFile w filePath arg val vd needWrite'))
           = trace w @ LangFileWrite ns k v # more @ [SourceWrite filePath newCode'] \<and>
         list_all isCatalogueWrite more)) \<and>
   (needWrite' \<and> updateLangFiles w val t vd = Inl e \<longrightarrow>
      writeUpdatedFile writeFile w filePath newCode val t vd needWrite' = (Some e, w)) \<and>
   (needWrite' \<and> updateLangFiles w val t vd = Inr w' \<and>
    writeFile (srcFiles w') filePath newCode = Inl e \<longrightarrow>
      writeUpdatedFile writeFile w filePath newCode val t vd needWrite' = (Some e, w')) \<and>
   (fst (writeUpdatedFile writeFile w filePath newCode val t vd needWrite') = None \<longrightarrow>
      writeFile (srcFiles w) filePath newCode
        = Inr (srcFiles (snd (writeUpdatedFile writeFile w filePath newCode val t vd needWrite')))) \<and>
   (\<not> needWrite' \<and>
    fst (writeUpdatedFile writeFile w filePath newCode val t vd needWrite') = None \<longrightarrow>
      trace (snd (writeUpdatedFile writeFile w filePath newCode val t vd needWrite'))
        = trace w @ [SourceWrite filePath newCode])"
proof (intro conjI impI)
  assume "needWrite' \<and> startsWith val (js ''I18N.'') \<and>
    fst (writeUpdatedFile writeFile w filePath newCode val t vd needWrite') = None"
  then show "\<exists>ns k v more.
         trace (snd (writeUpdatedFile writeFile w filePath newCode val t vd needWrite'))
           = trace w @ LangFileWrite ns k v # more @ [SourceWrite filePath newCode] \<and>
         list_all isCatalogueWrite more"
    using writeUpdatedFile_order by blast
next
  assume h: "needWrite' \<and> startsWith val (js ''I18N.'') \<and>
    fst (replaceAndUpdate readFile writeFile w filePath arg val vd needWrite') = None"
  then obtain newCode' t' where
    eq: "replaceAndUpdate readFile writeFile w filePath arg val vd needWrite'
           = writeUpdatedFile writeFile w filePath newCode' val t' vd needWrite'"
    using replaceAndUpdate_read by blast
  from h have "fst (replaceAndUpdate readFile writeFile w filePath arg val vd needWrite') = None"
    by (rule conjunct2[THEN conjunct2])
  then have "fst (writeUpdatedFile writeFile w filePath newCode' val t' vd needWrite') = None"
    unfolding eq .
  with h writeUpdatedFile_order[of needWrite' val writeFile w filePath newCode' t' vd]
  obtain ns k v more where
    "trace (snd (writeUpdatedFile writeFile w filePath newCode' val t' vd needWrite'))
           = trace w @ LangFileWrite ns k v # more @ [SourceWrite filePath newCode']"
    and "list_all isCatalogueWrite more"
    by blast
  with eq show "\<exists>ns k v more newCode'.
         trace (snd (replaceAndUpdate readFile writeFile w filePath arg val vd needWrite'))
           = trace w @ LangFileWrite ns k v # more @ [SourceWrite filePath newCode'] \<and>
         list_all isCatalogueWrite more"
    by auto
next
  assume "needWrite' \<and> updateLangFiles w val t vd = Inl e"
  then show "writeUpdatedFile writeFile w filePath newCode val t vd needWrite' = (Some e, w)"
    by (simp add: writeUpdatedFile_def)
next
  assume "needWrite' \<and> updateLangFiles w val t vd = Inr w' \<and>
    writeFile (srcFiles w') filePath newCode = Inl e"
  then show "writeUpdatedFile writeFile w filePath newCode val t vd needWrite' = (Some e, w')"
    by (simp add: writeUpdatedFile_def)
next
  assume "fst (writeUpdatedFile writeFile w filePath newCode val t vd needWrite') = None"
  then show "writeFile (srcFiles w) filePath newCode
        = Inr (srcFiles (snd (writeUpdatedFile writeFile w filePath newCode val t vd needWrite')))"
    by (auto simp: writeUpdatedFile_def updateLangFiles_srcFiles split: sum.splits if_splits)
next
  assume "\<not> needWrite' \<and>
    fst (writeUpdatedFile writeFile w filePath newCode val t vd needWrite') = None"
  then show "trace (snd (writeUpdatedFile writeFile w filePath newCode val t vd needWrite'))
        = trace w @ [SourceWrite filePath newCode]"
    by (auto simp: writeUpdatedFile_def split: sum.splits)
qed

text \<open>
  The first scenario of the specification. The file \<open>a.ts\<close> is on disk and holds
  \<^verbatim>\<open>const msg = "XY";\<close> with the two characters U+63D0 U+4EA4 for XY; the span is the
  string literal, 12..16. \<open>readFile\<close> returns the text of a file that exists and
  \<open>writeFile\<close> writes to a file that exists.
  \<^item> The call of \<open>replaceAndUpdate\<close> succeeds, and so does the call of
    \<open>writeUpdatedFile\<close> it makes: the catalogue write comes first and the source write
    last, and the file holds the new text afterwards.
  \<^item> On a disk where the catalogue file \<open>common\<close> has the key already, a call that
    validates duplicates is rejected and writes nothing.
  \<^item> With a \<open>writeFile\<close> that throws, the call is rejected after the catalogue file and
    the aggregator file have been written.
  \<^item> Without the flag, the source file alone is written.
\<close>

theorem catalogue_is_written_before_source_witness:
  "(let readFile = (\<lambda>files p. Inr (files p));
        writeFile = (\<lambda>files p c. Inr (if files p = None then files else files(p \<mapsto> c)));
        code = js ''const msg = '' @ [34, 0x63D0, 0x4EA4, 34] @ js '';'';
        newCode = js ''const msg = I18N.common.tiJiao;'';
        arg = \<lparr>range_start = 12, range_end = 16, span_text = [0x63D0, 0x4EA4], isString = True\<rparr>;
        val = js ''I18N.common.tiJiao'';
        w = \<lparr>srcFiles = [js ''a.ts'' \<mapsto> code], langFiles = (\<lambda>p. None), trace = []\<rparr>;
        w2 = \<lparr>srcFiles = [js ''a.ts'' \<mapsto> code],
              langFiles = [js ''common'' \<mapsto> JObj [(js ''tiJiao'', JStr [0x63D0, 0x4EA4])]],
              trace = []\<rparr>;
        w3 = \<lparr>srcFiles = [js ''a.ts'' \<mapsto> code],
              langFiles = [js ''common'' \<mapsto> JObj [(js ''tiJiao'', JStr [0x63D0, 0x4EA4])]],
              trace = [LangFileWrite (js ''common'') (js ''tiJiao'') [0x63D0, 0x4EA4],
                       MainLangFileWrite (js ''common'')]\<rparr>
    in startsWith val (js ''I18N.'') \<and>
       fst (replaceAndUpdate readFile writeFile w (js ''a.ts'') arg val False True) = None \<and>
       (\<exists>ns k v more newCode'.
          trace (snd (replaceAndUpdate readFile writeFile w (js ''a.ts'') arg val False True))
            = LangFileWrite ns k v # more @ [SourceWrite (js ''a.ts'') newCode'] \<and>
          list_all isCatalogueWrite more) \<and>
       fst (writeUpdatedFile writeFile w (js ''a.ts'') newCode val [0x63D0, 0x4EA4] False True) = None \<and>
       (\<exists>ns k v more.
          trace (snd (writeUpdatedFile writeFile w (js ''a.ts'') newCode val [0x63D0, 0x4EA4] False True))
            = LangFileWrite ns k v # more @ [SourceWrite (js ''a.ts'') newCode] \<and>
          list_all isCatalogueWrite more) \<and>
       srcFiles (snd (writeUpdatedFile writeFile w (js ''a.ts'') newCode val [0x63D0, 0x4EA4] False True))
         = [js ''a.ts'' \<mapsto> newCode] \<and>
       updateLangFiles w2 val [0x63D0, 0x4EA4] True = Inl DuplicateKey \<and>
       writeUpdatedFile writeFile w2 (js ''a.ts'') newCode val [0x63D0, 0x4EA4] True True
         = (Some DuplicateKey, w2) \<and>
       updateLangFiles w val [0x63D0, 0x4EA4] False = Inr w3 \<and>
       writeUpdatedFile (\<lambda>files p c. Inl IOError) w (js ''a.ts'') newCode val [0x63D0, 0x4EA4] False True
         = (Some IOError, w3) \<and>
       fst (writeUpdatedFile writeFile w (js ''a.ts'') newCode val [0x63D0, 0x4EA4] False False) = None \<and>
       trace (snd (writeUpdatedFile writeFile w (js ''a.ts'') newCode val [0x63D0, 0x4EA4] False False))
         = [SourceWrite (js ''a.ts'') newCode])"
proof -
  let ?rf = "(\<lambda>files p. Inr (files p)) :: files \<Rightarrow> jsstring \<Rightarrow> error + jsstring option"
  let ?wf = "(\<lambda>files p c. Inr (if files p = None then files else files(p \<mapsto> c)))
               :: files \<Rightarrow> jsstring \<Rightarrow> jsstring \<Rightarrow> error + files"
  let ?wx = "(\<lambda>files p c. Inl IOError) :: files \<Rightarrow> jsstring \<Rightarrow> jsstring \<Rightarrow> error + files"
  let ?code = "js ''const msg = '' @ [34, 0x63D0, 0x4EA4, 34] @ js '';''"
  let ?w = "\<lparr>srcFiles = [js ''a.ts'' \<mapsto> ?code], langFiles = (\<lambda>p. None), trace = []\<rparr>"
  let ?w2 = "\<lparr>srcFiles = [js ''a.ts'' \<mapsto> ?code],
             langFiles = [js ''common'' \<mapsto> JObj [(js ''tiJiao'', JStr [0x63D0, 0x4EA4])]],
             trace = []\<rparr>"
  let ?w3 = "\<lparr>srcFiles = [js ''a.ts'' \<mapsto> ?code],
             langFiles = [js ''common'' \<mapsto> JObj [(js ''tiJiao'', JStr [0x63D0, 0x4EA4])]],
             trace = [LangFileWrite (js ''common'') (js ''tiJiao'') [0x63D0, 0x4EA4],
                      MainLangFileWrite (js ''common'')]\<rparr>"
  let ?arg = "\<lparr>range_start = 12, range_end = 16, span_text = [0x63D0, 0x4EA4], isString = True\<rparr>"
  let ?val = "js ''I18N.common.tiJiao''"
  let ?new = "js ''const msg = I18N.common.tiJiao;''"
  let ?t = "[0x63D0, 0x4EA4] :: jsstring"
  note T = catalogue_is_written_before_source
  have sw: "startsWith ?val (js ''I18N.'')"
    by (simp add: startsWith_def js_def)
  have run: "replaceAndUpdate ?rf ?wf ?w (js ''a.ts'') ?arg ?val False True
               = writeUpdatedFile ?wf ?w (js ''a.ts'') ?new ?val ?t False True"
    by (simp add: replaceAndUpdate_def Let_def endsWith_def isPropertyAssignment_def
        isTemplateString_def generateReplaceValue_def slice_def slice1_def js_def)
  have upd: "updateLangFiles ?w ?val ?t False = Inr ?w3"
    by (simp add: updateLangFiles_def startsWith_def Let_def lodashSet_def castPath_def
        isObject_def assignValue_def js_def)
  have ok: "fst (writeUpdatedFile ?wf ?w (js ''a.ts'') ?new ?val ?t False True) = None"
    unfolding writeUpdatedFile_def upd by simp
  from ok have ok': "fst (replaceAndUpdate ?rf ?wf ?w (js ''a.ts'') ?arg ?val False True) = None"
    unfolding run .
  from T[where readFile = ?rf and writeFile = ?wf and w = ?w and filePath = "js ''a.ts''"
            and arg = ?arg and val = ?val and vd = False and needWrite' = True,
          THEN conjunct2, THEN conjunct1] sw ok'
  have order': "\<exists>ns k v more newCode'.
      trace (snd (replaceAndUpdate ?rf ?wf ?w (js ''a.ts'') ?arg ?val False True))
      = LangFileWrite ns k v # more @ [SourceWrite (js ''a.ts'') newCode'] \<and>
      list_all isCatalogueWrite more"
    by simp
  from T[where writeFile = ?wf and w = ?w and filePath = "js ''a.ts''" and newCode = ?new
            and val = ?val and t = ?t and vd = False and needWrite' = True,
          THEN conjunct1] sw ok
  have order: "\<exists>ns k v more.
      trace (snd (writeUpdatedFile ?wf ?w (js ''a.ts'') ?new ?val ?t False True))
      = LangFileWrite ns k v # more @ [SourceWrite (js ''a.ts'') ?new] \<and>
      list_all isCatalogueWrite more"
    by simp
  from T[where writeFile = ?wf and w = ?w and filePath = "js ''a.ts''" and newCode = ?new
            and val = ?val and t = ?t and vd = False and needWrite' = True,
          THEN conjunct2, THEN conjunct2, THEN conjunct2, THEN conjunct2, THEN conjunct1] ok
  have "?wf (srcFiles ?w) (js ''a.ts'') ?new
          = Inr (srcFiles (snd (writeUpdatedFile ?wf ?w (js ''a.ts'') ?new ?val ?t False True)))"
    by blast
  then have files: "srcFiles (snd (writeUpdatedFile ?wf ?w (js ''a.ts'') ?new ?val ?t False True))
                      = [js ''a.ts'' \<mapsto> ?new]"
    by simp
  have dup: "updateLangFiles ?w2 ?val ?t True = Inl DuplicateKey"
    by (simp add: updateLangFiles_def updateExistingLangFile_def startsWith_def Let_def
        lodashGet_def castPath_def ownProperty_def js_def)
  from T[where writeFile = ?wf and w = ?w2 and filePath = "js ''a.ts''" and newCode = ?new
            and val = ?val and t = ?t and vd = True and needWrite' = True
            and e = DuplicateKey,
          THEN conjunct2, THEN conjunct2, THEN conjunct1] dup
  have rej: "writeUpdatedFile ?wf ?w2 (js ''a.ts'') ?new ?val ?t True True = (Some DuplicateKey, ?w2)"
    by blast
  have thr: "?wx (srcFiles ?w3) (js ''a.ts'') ?new = Inl IOError" by simp
  from T[where writeFile = ?wx and w = ?w and w' = ?w3 and filePath = "js ''a.ts''"
            and newCode = ?new and val = ?val and t = ?t and vd = False and needWrite' = True
            and e = IOError,
          THEN conjunct2, THEN conjunct2, THEN conjunct2, THEN conjunct1] upd thr
  have ahead: "writeUpdatedFile ?wx ?w (js ''a.ts'') ?new ?val ?t False True = (Some IOError, ?w3)"
    by blast
  have ok0: "fst (writeUpdatedFile ?wf ?w (js ''a.ts'') ?new ?val ?t False False) = None"
    by (simp add: writeUpdatedFile_def)
  from T[where writeFile = ?wf and w = ?w and filePath = "js ''a.ts''" and newCode = ?new
            and val = ?val and t = ?t and vd = False and needWrite' = False,
          THEN conjunct2, THEN conjunct2, THEN conjunct2, THEN conjunct2, THEN conjunct2] ok0
  have only: "trace (snd (writeUpdatedFile ?wf ?w (js ''a.ts'') ?new ?val ?t False False))
                = [SourceWrite (js ''a.ts'') ?new]"
    by simp
  show ?thesis
    unfolding Let_def
    by (rule conjI[OF sw conjI[OF ok' conjI[OF order' conjI[OF ok conjI[OF order conjI[OF files
          conjI[OF dup conjI[OF rej conjI[OF upd conjI[OF ahead conjI[OF ok0 only]]]]]]]]]]])
qed

text \<open>
  C7 as stated fails: the writes of that call, in order, and the files afterwards. The
  catalogue file is written before the source file.
\<close>

theorem catalogue_write_precedes_source_write:
  "trace (snd (replaceAndUpdate (\<lambda>files p. Inr (files p))
          (\<lambda>files p c. Inr (if files p = None then files else files(p \<mapsto> c)))
          \<lparr>srcFiles = [js ''a.ts'' \<mapsto> js ''const msg = '' @ [34, 0x63D0, 0x4EA4, 34] @ js '';''],
           langFiles = (\<lambda>p. None), trace = []\<rparr>
          (js ''a.ts'')
          \<lparr>range_start = 12, range_end = 16, span_text = [0x63D0, 0x4EA4], isString = True\<rparr>
          (js ''I18N.common.tiJiao'') False True))
   = [LangFileWrite (js ''common'') (js ''tiJiao'') [0x63D0, 0x4EA4],
      MainLangFileWrite (js ''common''),
      SourceWrite (js ''a.ts'') (js ''const msg = I18N.common.tiJiao;'')] \<and>
   srcFiles (snd (replaceAndUpdate (\<lambda>files p. Inr (files p))
          (\<lambda>files p c. Inr (if files p = None then files else files(p \<mapsto> c)))
          \<lparr>srcFiles = [js ''a.ts'' \<mapsto> js ''const msg = '' @ [34, 0x63D0, 0x4EA4, 34] @ js '';''],
           langFiles = (\<lambda>p. None), trace = []\<rparr>
          (js ''a.ts'')
          \<lparr>range_start = 12, range_end = 16, span_text = [0x63D0, 0x4EA4], isString = True\<rparr>
          (js ''I18N.common.tiJiao'') False True)) (js ''a.ts'')
   = Some (js ''const msg = I18N.common.tiJiao;'') \<and>
   langFiles (snd (replaceAndUpdate (\<lambda>files p. Inr (files p))
          (\<lambda>files p c. Inr (if files p = None then files else files(p \<mapsto> c)))
          \<lparr>srcFiles = [js ''a.ts'' \<mapsto> js ''const msg = '' @ [34, 0x63D0, 0x4EA4, 34] @ js '';''],
           langFiles = (\<lambda>p. None), trace = []\<rparr>
          (js ''a.ts'')
          \<lparr>range_start = 12, range_end = 16, span_text = [0x63D0, 0x4EA4], isString = True\<rparr>
          (js ''I18N.common.tiJiao'') False True)) (js ''common'')
   = Some (JObj [(js ''tiJiao'', JStr [0x63D0, 0x4EA4])])"
proof -
  let ?rf = "(\<lambda>files p. Inr (files p)) :: files \<Rightarrow> jsstring \<Rightarrow> error + jsstring option"
  let ?wf = "(\<lambda>files p c. Inr (if files p = None then files else files(p \<mapsto> c)))
               :: files \<Rightarrow> jsstring \<Rightarrow> jsstring \<Rightarrow> error + files"
  let ?code = "js ''const msg = '' @ [34, 0x63D0, 0x4EA4, 34] @ js '';''"
  let ?w = "\<lparr>srcFiles = [js ''a.ts'' \<mapsto> ?code], langFiles = (\<lambda>p. None), trace = []\<rparr>"
  let ?arg = "\<lparr>range_start = 12, range_end = 16, span_text = [0x63D0, 0x4EA4], isString = True\<rparr>"
  let ?val = "js ''I18N.common.tiJiao''"
  let ?new = "js ''const msg = I18N.common.tiJiao;''"
  have run: "replaceAndUpdate ?rf ?wf ?w (js ''a.ts'') ?arg ?val False True
               = writeUpdatedFile ?wf ?w (js ''a.ts'') ?new ?val [0x63D0, 0x4EA4] False True"
    by (simp add: replaceAndUpdate_def Let_def endsWith_def isPropertyAssignment_def
        isTemplateString_def generateReplaceValue_def slice_def slice1_def js_def)
  show ?thesis
    unfolding run
    by (simp add: writeUpdatedFile_def updateLangFiles_def startsWith_def Let_def
        lodashSet_def castPath_def isObject_def assignValue_def js_def)
qed

section \<open>Template literals in the rewriter\<close>

text \<open>
  C4: a template literal with interpolations should be rewritten to a call of
  \<open>I18N.template\<close> with the interpolated expressions as \<open>val1\<close>, \<open>val2\<close>, ..., and its text
  stored with \<open>{val1}\<close>, \<open>{val2}\<close>, ... in their place. \<open>handleTemplateString\<close> builds
  exactly that, but \<open>replaceAndUpdate\<close> calls it only when \<open>isTemplateString\<close> holds, and
  \<open>isTemplateString\<close> looks at the character before the start of the span, while the span
  an extractor gives for a template literal starts at the backtick itself (its text is cut
  from \<open>start + 1\<close> to \<open>end - 1\<close>).

  The example of the specification in a script file, \<^verbatim>\<open>const s = BXY${n}ZB;\<close> with a
  backtick for B and the characters U+4F60, U+6709, U+6761 for X, Y, Z. The parser's node
  for the literal begins at 9, its first character is at 10 and it ends at 19:
  \<^item> the span \<open>handleTemplateExpression\<close> gives is 10..19, with the text between the
    backticks;
  \<^item> the character at 10 is the backtick, and \<open>isTemplateString\<close> is false there: the
    character before is a blank;
  \<^item> \<open>replaceAndUpdate\<close> writes the text with \<open>${n}\<close> still in it to the catalogue, and
    \<^verbatim>\<open>const s = I18N.common.niYouTiao;\<close> to the source file: the expression \<open>n\<close> is lost;
  \<^item> \<open>handleTemplateString\<close>, had it been called, gives the call of \<open>I18N.template\<close>
    and the text with \<open>{val1}\<close>.
\<close>

theorem template_literal_is_not_recognised:
  "handleTemplateExpression
     (js ''const s = '' @ [96, 0x4F60, 0x6709] @ js ''${n}'' @ [0x6761, 96] @ js '';'')
     \<lparr>node_pos = 9, node_start = 10, node_end = 19\<rparr>
   = [\<lparr>range_start = 10, range_end = 19, span_text = [0x4F60, 0x6709] @ js ''${n}'' @ [0x6761],
       isString = True\<rparr>] \<and>
   charAt (js ''const s = '' @ [96, 0x4F60, 0x6709] @ js ''${n}'' @ [0x6761, 96] @ js '';'') 10
     = Some 96 \<and>
   \<not> isTemplateString
       (js ''const s = '' @ [96, 0x4F60, 0x6709] @ js ''${n}'' @ [0x6761, 96] @ js '';'') 10 \<and>
   trace (snd (replaceAndUpdate (\<lambda>files p. Inr (files p))
          (\<lambda>files p c. Inr (if files p = None then files else files(p \<mapsto> c)))
          \<lparr>srcFiles = [js ''a.ts'' \<mapsto>
             js ''const s = '' @ [96, 0x4F60, 0x6709] @ js ''${n}'' @ [0x6761, 96] @ js '';''],
           langFiles = (\<lambda>p. None), trace = []\<rparr>
          (js ''a.ts'')
          \<lparr>range_start = 10, range_end = 19,
           span_text = [0x4F60, 0x6709] @ js ''${n}'' @ [0x6761], isString = True\<rparr>
          (js ''I18N.common.niYouTiao'') False True))
   = [LangFileWrite (js ''common'') (js ''niYouTiao'') ([0x4F60, 0x6709] @ js ''${n}'' @ [0x6761]),
      MainLangFileWrite (js ''common''),
      SourceWrite (js ''a.ts'') (js ''const s = I18N.common.niYouTiao;'')] \<and>
   handleTemplateString ([0x4F60, 0x6709] @ js ''${n}'' @ [0x6761]) (js ''I18N.common.niYouTiao'')
   = (js ''I18N.template(I18N.common.niYouTiao, { val1: n })'',
      [0x4F60, 0x6709] @ js ''{val1}'' @ [0x6761])"
proof -
  let ?rf = "(\<lambda>files p. Inr (files p)) :: files \<Rightarrow> jsstring \<Rightarrow> error + jsstring option"
  let ?wf = "(\<lambda>files p c. Inr (if files p = None then files else files(p \<mapsto> c)))
               :: files \<Rightarrow> jsstring \<Rightarrow> jsstring \<Rightarrow> error + files"
  let ?code = "js ''const s = '' @ [96, 0x4F60, 0x6709] @ js ''${n}'' @ [0x6761, 96] @ js '';''"
  let ?t = "[0x4F60, 0x6709] @ js ''${n}'' @ [0x6761]"
  let ?w = "\<lparr>srcFiles = [js ''a.ts'' \<mapsto> ?code], langFiles = (\<lambda>p. None), trace = []\<rparr>"
  let ?arg = "\<lparr>range_start = 10, range_end = 19, span_text = ?t, isString = True\<rparr>"
  let ?val = "js ''I18N.common.niYouTiao''"
  have a: "handleTemplateExpression ?code \<lparr>node_pos = 9, node_start = 10, node_end = 19\<rparr> = [?arg]"
    by (simp add: handleTemplateExpression_def Let_def hasChinese_def isDoubleByte_def slice_def
        js_def)
  have b: "charAt ?code 10 = Some 96"
    by (simp add: charAt_def js_def)
  have c: "\<not> isTemplateString ?code 10"
    by (simp add: isTemplateString_def slice_def js_def)
  have run: "replaceAndUpdate ?rf ?wf ?w (js ''a.ts'') ?arg ?val False True
               = writeUpdatedFile ?wf ?w (js ''a.ts'') (js ''const s = I18N.common.niYouTiao;'')
                   ?val ?t False True"
    by (simp add: replaceAndUpdate_def Let_def endsWith_def isPropertyAssignment_def
        isTemplateString_def generateReplaceValue_def slice_def slice1_def js_def)
  have d: "trace (snd (replaceAndUpdate ?rf ?wf ?w (js ''a.ts'') ?arg ?val False True))
   = [LangFileWrite (js ''common'') (js ''niYouTiao'') ?t,
      MainLangFileWrite (js ''common''),
      SourceWrite (js ''a.ts'') (js ''const s = I18N.common.niYouTiao;'')]"
    unfolding run
    by (simp add: writeUpdatedFile_def updateLangFiles_def startsWith_def Let_def js_def)
  have e: "handleTemplateString ?t ?val
   = (js ''I18N.template(I18N.common.niYouTiao, { val1: n })'',
      [0x4F60, 0x6709] @ js ''{val1}'' @ [0x6761])"
    by (simp add: handleTemplateString_def Let_def varAt_def startsWith_def stripInterpolation_def
        placeholder_def decimal.simps replaceFirst_def js_def)
  from a b c d e show ?thesis by (intro conjI)
qed

end
